theory Spec2Isabelle
  imports Main "HOL-Library.Word"
begin

section \<open>Strings, numbers and dates as the Python builtins treat them\<close>

text \<open>
  A Python \<open>str\<close> is modelled as a \<open>string\<close> whose characters are the code points
  U+0000..U+00FF, one \<open>char\<close> per code point. On that range the character classes used
  below (\<open>str.isspace\<close>, the line boundaries of \<open>str.splitlines\<close>, the decimal digits
  accepted by \<open>int\<close>) are exactly the sets written out here.
\<close>

definition digit_char :: "nat \<Rightarrow> char" where
  "digit_char d = ''0123456789'' ! (d mod 10)"

text \<open>\<open>str(n)\<close> for a non-negative integer: its decimal digits, no leading zero.\<close>

function str_nat :: "nat \<Rightarrow> string" where
  "str_nat n = (if n < 10 then [digit_char n] else str_nat (n div 10) @ [digit_char (n mod 10)])"
  by pat_completeness auto
termination
  by (relation "measure (\<lambda>n. n)") auto

declare str_nat.simps [simp del]

text \<open>\<open>str(i)\<close> for a Python integer.\<close>

definition str_int :: "int \<Rightarrow> string" where
  "str_int i = (if i < 0 then CHR ''-'' # str_nat (nat (- i)) else str_nat (nat i))"

text \<open>The zero padding of the C conversions \<open>%04d\<close> and \<open>%02d\<close> on a non-negative number.\<close>

definition zero_pad :: "nat \<Rightarrow> string \<Rightarrow> string" where
  "zero_pad w s = replicate (w - length s) (CHR ''0'') @ s"

text \<open>
  \<open>datetime.date\<close>: the value the two date widgets return. \<open>date.strftime\<close> is modelled
  for the directives the program uses (\<open>%Y\<close>, \<open>%m\<close>, \<open>%d\<close>) and for \<open>%%\<close>; any other
  character of the format is copied. \<open>%Y\<close> is the year with century, zero-padded to four
  digits as the Python documentation gives it; C libraries differ on the padding of years
  below 1000, so the results below are stated for four-digit years, the only ones the
  date widget offers.
\<close>

record date =
  year :: nat
  month :: nat
  day :: nat

fun strftime :: "date \<Rightarrow> string \<Rightarrow> string" where
  "strftime d [] = []"
| "strftime d [c] = [c]"
| "strftime d (c # e # fmt) =
     (if c = CHR ''%'' then
        (if e = CHR ''Y'' then zero_pad 4 (str_nat (year d)) @ strftime d fmt
         else if e = CHR ''m'' then zero_pad 2 (str_nat (month d)) @ strftime d fmt
         else if e = CHR ''d'' then zero_pad 2 (str_nat (day d)) @ strftime d fmt
         else if e = CHR ''%'' then CHR ''%'' # strftime d fmt
         else c # e # strftime d fmt)
      else c # strftime d (e # fmt))"

section \<open>The report request and response of the analytics service\<close>

datatype date_range = DateRange string string
  \<comment> \<open>\<open>DateRange(start_date=..., end_date=...)\<close>, in that order\<close>

datatype dimension = Dimension string
datatype metric = Metric string

datatype match_type =
  MATCH_TYPE_UNSPECIFIED | EXACT | BEGINS_WITH | ENDS_WITH | CONTAINS | FULL_REGEXP | PARTIAL_REGEXP

datatype string_filter = StringFilter match_type string
  \<comment> \<open>\<open>Filter.StringFilter(match_type=..., value=...)\<close>\<close>

datatype filter = Filter string string_filter
  \<comment> \<open>\<open>Filter(field_name=..., string_filter=...)\<close>\<close>

datatype filter_expression = FilterExpression filter

record run_report_request =
  property :: string
  date_ranges :: "date_range list"
  dimensions :: "dimension list"
  metrics :: "metric list"
  dimension_filter :: filter_expression

text \<open>
  A response row: the \<open>.value\<close> strings of its dimension values and of its metric values.
\<close>

record row =
  dimension_values :: "string list"
  metric_values :: "string list"

datatype run_report_response = RunReportResponse (response_rows: "row list")

datatype py_error =
  KeyError | IndexError | ValueError
  | ApiError string \<comment> \<open>any exception raised by \<open>client.run_report\<close>\<close>
  | CredentialError string \<comment> \<open>any exception raised while the client is built\<close>

text \<open>
  The client handle with the service behind it. \<open>client.run_report(request)\<close> is a network
  call: its answer may depend on the request and on every request made before it in the
  run, so a client is a function of the requests made so far and of the request.
\<close>

type_synonym client = "run_report_request list \<Rightarrow> run_report_request \<Rightarrow> py_error + run_report_response"


section \<open>More Python builtins: whitespace, lines, zfill, int\<close>

definition isspace :: "char \<Rightarrow> bool" where
  "isspace c = (c \<in> set [CHR 0x09, CHR 0x0A, CHR 0x0B, CHR 0x0C, CHR 0x0D, CHR 0x1C, CHR 0x1D,
                           CHR 0x1E, CHR 0x1F, CHR 0x20, CHR 0x85, CHR 0xA0])"

text \<open>\<open>s.strip()\<close>: the whitespace at both ends removed.\<close>

definition strip :: "string \<Rightarrow> string" where
  "strip s = rev (dropWhile isspace (rev (dropWhile isspace s)))"

definition is_linebreak :: "char \<Rightarrow> bool" where
  "is_linebreak c = (c \<in> set [CHR 0x0A, CHR 0x0B, CHR 0x0C, CHR 0x0D, CHR 0x1C, CHR 0x1D,
                                CHR 0x1E, CHR 0x85])"

text \<open>
  \<open>s.splitlines()\<close>: the lines of \<open>s\<close> without their line boundaries; \<open>\r\n\<close> is one
  boundary, and no empty line follows a final boundary. The first argument is the line
  read so far.
\<close>

fun splitlines_from :: "string \<Rightarrow> string \<Rightarrow> string list" where
  "splitlines_from line [] = (if line = [] then [] else [line])"
| "splitlines_from line [c] = (if is_linebreak c then [line] else [line @ [c]])"
| "splitlines_from line (c # d # cs) =
     (if c = CHR 0x0D \<and> d = CHR 0x0A then line # splitlines_from [] cs
      else if is_linebreak c then line # splitlines_from [] (d # cs)
      else splitlines_from (line @ [c]) (d # cs))"

definition splitlines :: "string \<Rightarrow> string list" where
  "splitlines s = splitlines_from [] s"

text \<open>
  \<open>s.zfill(width)\<close>: zeros are inserted until the length is \<open>width\<close>; they go after a
  leading sign character, otherwise in front.
\<close>

definition zfill :: "nat \<Rightarrow> string \<Rightarrow> string" where
  "zfill width s =
     (if width \<le> length s then s
      else (case s of
              [] \<Rightarrow> replicate width (CHR ''0'')
            | c # cs \<Rightarrow>
                if c = CHR ''+'' \<or> c = CHR ''-''
                then c # replicate (width - length s) (CHR ''0'') @ cs
                else replicate (width - length s) (CHR ''0'') @ s))"

text \<open>
  \<open>int(s)\<close> on a string, base 10: whitespace at both ends is skipped (the ASCII whitespace
  and the two non-ASCII spaces of the range), then an optional sign, then decimal digits
  in which single underscores may separate digits. More than 4300 digits are refused
  (the interpreter's default limit on integer strings). \<open>None\<close> stands for the
  \<open>ValueError\<close> that \<open>int\<close> raises.
\<close>

definition is_digit :: "char \<Rightarrow> bool" where
  "is_digit c = (c \<in> set ''0123456789'')"

definition digit_val :: "char \<Rightarrow> nat" where
  "digit_val c = of_char c - 48"

definition int_space :: "char \<Rightarrow> bool" where
  "int_space c = (c \<in> set [CHR 0x09, CHR 0x0A, CHR 0x0B, CHR 0x0C, CHR 0x0D, CHR 0x20,
                             CHR 0x85, CHR 0xA0])"

fun parse_digits :: "string \<Rightarrow> nat list option" where
  "parse_digits [] = None"
| "parse_digits [c] = (if is_digit c then Some [digit_val c] else None)"
| "parse_digits (c # d # cs) =
     (if is_digit c then
        (if d = CHR ''_'' then map_option (Cons (digit_val c)) (parse_digits cs)
         else map_option (Cons (digit_val c)) (parse_digits (d # cs)))
      else None)"

definition decimal_value :: "nat list \<Rightarrow> nat" where
  "decimal_value ds = foldl (\<lambda>v d. 10 * v + d) 0 ds"

definition py_int :: "string \<Rightarrow> int option" where
  "py_int s =
     (case rev (dropWhile int_space (rev (dropWhile int_space s))) of
        [] \<Rightarrow> None
      | c # cs \<Rightarrow>
          (case parse_digits (if c = CHR ''+'' \<or> c = CHR ''-'' then cs else c # cs) of
             None \<Rightarrow> None
           | Some ds \<Rightarrow>
               if 4300 < length ds then None
               else if c = CHR ''-'' then Some (- int (decimal_value ds))
               else Some (int (decimal_value ds))))"

text \<open>\<open>xs[i]\<close> for a non-negative literal index: \<open>IndexError\<close> out of range.\<close>

definition getitem :: "'a list \<Rightarrow> nat \<Rightarrow> py_error + 'a" where
  "getitem xs i = (if i < length xs then Inr (xs ! i) else Inl IndexError)"

section \<open>The property directory\<close>

definition view_id_name_mapping :: "string \<rightharpoonup> string" where
  "view_id_name_mapping = map_of
    [(''424738282'', ''DNA English''),
     (''424752920'', ''DNA Hindi''),
     (''424754635'', ''ICOM Hindi''),
     (''424788272'', ''ICOM English''),
     (''424733916'', ''Zee Bengali''),
     (''424734706'', ''Zee Odisha''),
     (''424737620'', ''Zee PHH''),
     (''424740324'', ''Zee Rajasthan''),
     (''424747120'', ''Zee Salaam''),
     (''424748591'', ''Zee Gujarati''),
     (''424751136'', ''Zee Hindustan''),
     (''424751758'', ''Zee English''),
     (''424752916'', ''Zee Telugu''),
     (''424755684'', ''Zee UP UK''),
     (''424756835'', ''Zee Hindi''),
     (''424807672'', ''Delhi NCR Harayana''),
     (''424807363'', ''Zee Bihar Jharkhand''),
     (''424803703'', ''Zee MP CG''),
     (''424803190'', ''Zee Tamil''),
     (''424802051'', ''Zee Malayalam''),
     (''424797141'', ''Zee Marathi''),
     (''424784463'', ''Zee Kannada''),
     (''449141964'', ''WION''),
     (''424815185'', ''Zee Biz English''),
     (''424771953'', ''Zee Biz Hindi''),
     (''425235134'', ''HealthSite English''),
     (''425228038'', ''HealthSite Hindi''),
     (''379536469'', ''Screenbox''),
     (''425234014'', ''Bollywood Life English''),
     (''425220388'', ''Bollywood Life Hindi''),
     (''425245314'', ''CricketCountry English''),
     (''425237720'', ''CricketCountry Hindi''),
     (''425228771'', ''Techlusive English''),
     (''425219576'', ''Techlusive Hindi''),
     (''374981587'', ''MyLord''),
     (''432213368'', ''Petuz''),
     (''429575403'', ''Travel by India'')]"

section \<open>The report fetcher\<close>

text \<open>The dictionary appended for one response row.\<close>

record report_row =
  Site :: string
  Year_Month :: string
  Total_Users :: int
  Pageviews :: int
  Regex :: string

text \<open>The request \<open>fetch_ga4_data\<close> builds.\<close>

definition build_request :: "string \<Rightarrow> string \<Rightarrow> date \<Rightarrow> date \<Rightarrow> run_report_request" where
  "build_request property_id regex start_date end_date =
     \<lparr>property = ''properties/'' @ property_id,
      date_ranges = [DateRange (strftime start_date ''%Y-%m-%d'') (strftime end_date ''%Y-%m-%d'')],
      dimensions = [Dimension ''year'', Dimension ''month''],
      metrics = [Metric ''totalUsers'', Metric ''screenPageViews''],
      dimension_filter = FilterExpression (Filter ''pagePath'' (StringFilter FULL_REGEXP regex))\<rparr>"

text \<open>
  The body of the loop over \<open>response.rows\<close>: the dictionary for one row, its entries
  evaluated in the order they are written. An index out of range raises \<open>IndexError\<close>, a
  metric value that \<open>int\<close> refuses raises \<open>ValueError\<close>.
\<close>

definition flatten_row :: "string \<Rightarrow> string \<Rightarrow> row \<Rightarrow> py_error + report_row" where
  "flatten_row site_name regex r =
     (case getitem (dimension_values r) 0 of Inl e \<Rightarrow> Inl e | Inr y \<Rightarrow>
      case getitem (dimension_values r) 1 of Inl e \<Rightarrow> Inl e | Inr m \<Rightarrow>
      case getitem (metric_values r) 0 of Inl e \<Rightarrow> Inl e | Inr u \<Rightarrow>
      case py_int u of None \<Rightarrow> Inl ValueError | Some users \<Rightarrow>
      case getitem (metric_values r) 1 of Inl e \<Rightarrow> Inl e | Inr p \<Rightarrow>
      case py_int p of None \<Rightarrow> Inl ValueError | Some views \<Rightarrow>
        Inr \<lparr>Site = site_name, Year_Month = y @ ''-'' @ zfill 2 m,
             Total_Users = users, Pageviews = views, Regex = regex\<rparr>)"

text \<open>The loop over \<open>response.rows\<close>; \<open>rows\<close> is the list built so far.\<close>

fun flatten_rows :: "string \<Rightarrow> string \<Rightarrow> row list \<Rightarrow> report_row list \<Rightarrow> py_error + report_row list" where
  "flatten_rows site_name regex [] rows = Inr rows"
| "flatten_rows site_name regex (r # rest) rows =
     (case flatten_row site_name regex r of
        Inl e \<Rightarrow> Inl e
      | Inr d \<Rightarrow> flatten_rows site_name regex rest (rows @ [d]))"

text \<open>
  \<open>fetch_ga4_data\<close>: one call of the service. The second argument is the list of requests
  made before the call; the second component of the result is that list with this call's
  request added.
\<close>

definition fetch_ga4_data ::
  "client \<Rightarrow> run_report_request list \<Rightarrow> string \<Rightarrow> string \<Rightarrow> string \<Rightarrow> date \<Rightarrow> date
     \<Rightarrow> (py_error + report_row list) \<times> run_report_request list" where
  "fetch_ga4_data client sent property_id site_name regex start_date end_date =
     (let request = build_request property_id regex start_date end_date in
      case client sent request of
        Inl e \<Rightarrow> (Inl e, sent @ [request])
      | Inr response \<Rightarrow> (flatten_rows site_name regex (response_rows response) [], sent @ [request]))"

section \<open>The data frame and its export\<close>

record data_frame =
  columns :: "string list"
  records :: "report_row list"

text \<open>\<open>pd.DataFrame(final_data)\<close>: the columns are the keys of the dictionaries, in order.\<close>

definition DataFrame :: "report_row list \<Rightarrow> data_frame" where
  "DataFrame final_data =
     \<lparr>columns = [''Site'', ''Year_Month'', ''Total_Users'', ''Pageviews'', ''Regex''],
      records = final_data\<rparr>"

text \<open>
  \<open>df.to_csv(index=False)\<close> writes the column names and then each record through
  \<open>csv.writer\<close> with the defaults: comma, minimal quoting, double quote as quote character,
  doubled when it occurs in a field. A field is quoted when it holds a comma, a double
  quote, a carriage return or a line feed. Every row here has five fields. The line
  terminator is \<open>os.linesep\<close>, here the POSIX one.
\<close>

definition os_linesep :: string where
  "os_linesep = [CHR 0x0A]"

definition needs_quoting :: "string \<Rightarrow> bool" where
  "needs_quoting s = (\<exists>c \<in> set s. c = CHR '','' \<or> c = CHR 0x22 \<or> c = CHR 0x0D \<or> c = CHR 0x0A)"

definition csv_field :: "string \<Rightarrow> string" where
  "csv_field s =
     (if needs_quoting s
      then [CHR 0x22] @ concat (map (\<lambda>c. if c = CHR 0x22 then [CHR 0x22, CHR 0x22] else [c]) s) @ [CHR 0x22]
      else s)"

fun join :: "string \<Rightarrow> string list \<Rightarrow> string" where
  "join sep [] = []"
| "join sep [x] = x"
| "join sep (x # y # ys) = x @ sep @ join sep (y # ys)"

definition writerow :: "string list \<Rightarrow> string" where
  "writerow flds = join '','' (map csv_field flds) @ os_linesep"

definition cells :: "report_row \<Rightarrow> string list" where
  "cells r = [Site r, Year_Month r, str_int (Total_Users r), str_int (Pageviews r), Regex r]"

definition to_csv :: "data_frame \<Rightarrow> string" where
  "to_csv df = writerow (columns df) @ concat (map (\<lambda>r. writerow (cells r)) (records df))"

text \<open>\<open>s.encode("utf-8")\<close> on the code points of the range: one byte below U+0080, else two.\<close>

definition utf8_char :: "char \<Rightarrow> 8 word list" where
  "utf8_char c =
     (let n = (of_char c :: nat) in
      if n < 128 then [of_nat n] else [of_nat (192 + n div 64), of_nat (128 + n mod 64)])"

definition encode_utf8 :: "string \<Rightarrow> 8 word list" where
  "encode_utf8 s = concat (map utf8_char s)"


section \<open>The main block\<close>

text \<open>
  Text shown to the user is a list of Unicode code points, since the literals of the
  program start with symbols beyond U+00FF.
\<close>

type_synonym ui_text = "nat list"

definition text_of :: "string \<Rightarrow> ui_text" where
  "text_of s = map of_char s"

text \<open>
  What the main block leaves on the page: \<open>st.error\<close>, \<open>st.success\<close>, \<open>st.warning\<close>,
  \<open>st.dataframe\<close> and \<open>st.download_button\<close> (label, data, file name, MIME type). The
  spinner is gone when its block ends and is not recorded.
\<close>

datatype ui_event =
  StError ui_text
| StSuccess ui_text
| StWarning ui_text
| StDataframe data_frame
| StDownloadButton ui_text "8 word list" string string

text \<open>
  The outcome of one execution of the main block: the elements shown, in order, the requests
  sent to the service, in order, and the exception that ended the block, if one did.
\<close>

record run_result =
  events :: "ui_event list"
  sent_requests :: "run_report_request list"
  raised :: "py_error option"

text \<open>The inner loop, over \<open>regex_list\<close>, for one property.\<close>

fun regex_loop ::
  "client \<Rightarrow> run_report_request list \<Rightarrow> string \<Rightarrow> string \<Rightarrow> string list \<Rightarrow> date \<Rightarrow> date
     \<Rightarrow> report_row list \<Rightarrow> (py_error + report_row list) \<times> run_report_request list" where
  "regex_loop client sent property_id site_name [] start_date end_date final_data =
     (Inr final_data, sent)"
| "regex_loop client sent property_id site_name (regex # rest) start_date end_date final_data =
     (case fetch_ga4_data client sent property_id site_name regex start_date end_date of
        (Inl e, sent') \<Rightarrow> (Inl e, sent')
      | (Inr rows, sent') \<Rightarrow>
          regex_loop client sent' property_id site_name rest start_date end_date (final_data @ rows))"

text \<open>
  The outer loop, over \<open>selected_sites\<close>. The directory lookup raises \<open>KeyError\<close> for an
  identifier that is not a key.
\<close>

fun property_loop ::
  "client \<Rightarrow> run_report_request list \<Rightarrow> string list \<Rightarrow> string list \<Rightarrow> date \<Rightarrow> date
     \<Rightarrow> report_row list \<Rightarrow> (py_error + report_row list) \<times> run_report_request list" where
  "property_loop client sent [] regex_list start_date end_date final_data =
     (Inr final_data, sent)"
| "property_loop client sent (property_id # rest) regex_list start_date end_date final_data =
     (case view_id_name_mapping property_id of
        None \<Rightarrow> (Inl KeyError, sent)
      | Some site_name \<Rightarrow>
          (case regex_loop client sent property_id site_name regex_list start_date end_date final_data of
             (Inl e, sent') \<Rightarrow> (Inl e, sent')
           | (Inr final_data', sent') \<Rightarrow>
               property_loop client sent' rest regex_list start_date end_date final_data'))"

text \<open>\<open>[r.strip() for r in regex_input.splitlines() if r.strip()]\<close>\<close>

definition regex_list_of :: "string \<Rightarrow> string list" where
  "regex_list_of regex_input = map strip (filter (\<lambda>r. strip r \<noteq> []) (splitlines regex_input))"

text \<open>
  The main block. \<open>cred_file\<close> is \<open>None\<close> when nothing was uploaded. \<open>make_client\<close> stands
  for the three steps that turn the uploaded file into a client (\<open>json.loads\<close>,
  \<open>Credentials.from_service_account_info\<close>, \<open>BetaAnalyticsDataClient\<close>), any of which may
  raise.
\<close>

definition main ::
  "('cred \<Rightarrow> py_error + client) \<Rightarrow> bool \<Rightarrow> 'cred option \<Rightarrow> date \<Rightarrow> date \<Rightarrow> string list \<Rightarrow> string
     \<Rightarrow> run_result" where
  "main make_client fetch_btn cred_file start_date end_date selected_sites regex_input =
     (if fetch_btn then
        (case cred_file of
           None \<Rightarrow>
             \<lparr>events = [StError (0x274C # text_of '' Upload GA4 Service Account JSON'')],
              sent_requests = [], raised = None\<rparr>
         | Some cred \<Rightarrow>
             if selected_sites = [] then
               \<lparr>events = [StError (0x274C # text_of '' Select at least one site'')],
                sent_requests = [], raised = None\<rparr>
             else if strip regex_input = [] then
               \<lparr>events = [StError (0x274C # text_of '' Enter at least one regex'')],
                sent_requests = [], raised = None\<rparr>
             else
               (case make_client cred of
                  Inl e \<Rightarrow> \<lparr>events = [], sent_requests = [], raised = Some e\<rparr>
                | Inr client \<Rightarrow>
                    (case property_loop client [] selected_sites (regex_list_of regex_input)
                            start_date end_date [] of
                       (Inl e, sent) \<Rightarrow> \<lparr>events = [], sent_requests = sent, raised = Some e\<rparr>
                     | (Inr final_data, sent) \<Rightarrow>
                         if final_data \<noteq> [] then
                           (let df = DataFrame final_data;
                                csv = encode_utf8 (to_csv df)
                            in \<lparr>events =
                                   [StSuccess (0x2705 # text_of ('' Data fetched: ''
                                       @ str_nat (length (records df)) @ '' rows'')),
                                    StDataframe df,
                                    StDownloadButton (0x2B07 # 0xFE0F # text_of '' Download CSV'')
                                      csv ''ga4_category_report.csv'' ''text/csv''],
                                 sent_requests = sent, raised = None\<rparr>)
                         else
                           \<lparr>events = [StWarning (0x26A0 # 0xFE0F # text_of '' No data returned'')],
                            sent_requests = sent, raised = None\<rparr>)))
      else \<lparr>events = [], sent_requests = [], raised = None\<rparr>)"

section \<open>Vocabulary of the properties\<close>




text \<open>
  The calls of a run, one for each pair of a property and a regex, taken in the order of the
  list: the outcome of each call, and the requests sent when all of them have been made.
  Each call sees the requests made before it. A property that the directory does not hold
  gives \<open>KeyError\<close> and sends nothing.
\<close>

fun matrix_calls ::
  "client \<Rightarrow> run_report_request list \<Rightarrow> (string \<times> string) list \<Rightarrow> date \<Rightarrow> date
     \<Rightarrow> (py_error + report_row list) list \<times> run_report_request list" where
  "matrix_calls client sent [] start_date end_date = ([], sent)"
| "matrix_calls client sent ((property_id, regex) # rest) start_date end_date =
     (case view_id_name_mapping property_id of
        None \<Rightarrow>
          (case matrix_calls client sent rest start_date end_date of
             (results, sent') \<Rightarrow> (Inl KeyError # results, sent'))
      | Some site_name \<Rightarrow>
          (case fetch_ga4_data client sent property_id site_name regex start_date end_date of
             (result, sent1) \<Rightarrow>
               (case matrix_calls client sent1 rest start_date end_date of
                  (results, sent') \<Rightarrow> (result # results, sent'))))"

text \<open>
  The outcomes of a sequence of calls put together: the rows of all calls, in order, unless
  a call failed; then the error of the first call that failed.
\<close>

fun gather :: "(py_error + 'a list) list \<Rightarrow> py_error + 'a list" where
  "gather [] = Inr []"
| "gather (Inl e # rest) = Inl e"
| "gather (Inr xs # rest) = (case gather rest of Inl e \<Rightarrow> Inl e | Inr ys \<Rightarrow> Inr (xs @ ys))"


text \<open>A string left-padded with \<open>0\<close> to a width: zeros in front until the width is reached.\<close>

definition left_padded :: "nat \<Rightarrow> string \<Rightarrow> string" where
  "left_padded w s = replicate (w - length s) (CHR ''0'') @ s"

text \<open>
  A response row that can be flattened: two dimension values, two metric values, and both
  of the first two metric values accepted by \<open>int\<close>.
\<close>

definition row_flattens :: "row \<Rightarrow> bool" where
  "row_flattens r =
     (2 \<le> length (dimension_values r) \<and> 2 \<le> length (metric_values r)
      \<and> py_int (metric_values r ! 0) \<noteq> None \<and> py_int (metric_values r ! 1) \<noteq> None)"

text \<open>The requests for the pairs of a property and a regex, in the order of the pairs.\<close>

definition requests_for :: "(string \<times> string) list \<Rightarrow> date \<Rightarrow> date \<Rightarrow> run_report_request list" where
  "requests_for pairs start_date end_date =
     map (\<lambda>(property_id, regex). build_request property_id regex start_date end_date) pairs"

text \<open>Blank text: nothing but whitespace, or nothing at all.\<close>

definition blank :: "string \<Rightarrow> bool" where
  "blank s = (\<forall>c \<in> set s. isspace c)"







section \<open>Auxiliary facts\<close>

subsection \<open>Decimal digits and dates\<close>









subsection \<open>The two loops and the sequence of calls\<close>

lemma gather_append:
  "gather (xs @ ys) =
     (case gather xs of Inl e \<Rightarrow> Inl e
      | Inr a \<Rightarrow> (case gather ys of Inl e \<Rightarrow> Inl e | Inr b \<Rightarrow> Inr (a @ b)))"
  by (induction xs rule: gather.induct) (auto split: sum.splits)

lemma gather_Inr: "gather rs = Inr ys \<Longrightarrow> \<exists>rss. rs = map Inr rss \<and> ys = concat rss"
proof (induction rs arbitrary: ys rule: gather.induct)
  case 1
  then show ?case by simp
next
  case (2 e rest)
  then show ?case by simp
next
  case (3 xs rest)
  from "3.prems" obtain zs where g: "gather rest = Inr zs" and ys: "ys = xs @ zs"
    by (auto split: sum.splits)
  from "3.IH" [OF g] obtain rss where "rest = map Inr rss" and "zs = concat rss" by blast
  with ys have "Inr xs # rest = map Inr (xs # rss) \<and> ys = concat (xs # rss)" by simp
  then show ?case by (rule exI [of _ "xs # rss"])
qed

lemma gather_Inl: "gather (map Inr rss @ Inl e # rest) = Inl e"
  by (induction rss) auto

lemma gather_map_Inr: "gather (map Inr rss) = Inr (concat rss)"
  by (induction rss) auto

lemma fetch_sent:
  "snd (fetch_ga4_data client sent property_id site_name regex start_date end_date) =
     sent @ [build_request property_id regex start_date end_date]"
  by (simp add: fetch_ga4_data_def Let_def split: sum.splits)

lemma matrix_calls_append:
  "matrix_calls client sent (xs @ ys) start_date end_date =
     (case matrix_calls client sent xs start_date end_date of
        (r1, s1) \<Rightarrow> (case matrix_calls client s1 ys start_date end_date of
                      (r2, s2) \<Rightarrow> (r1 @ r2, s2)))"
  by (induction client sent xs start_date end_date rule: matrix_calls.induct)
     (auto split: option.splits prod.splits)

lemma regex_loop_gather:
  assumes "view_id_name_mapping property_id = Some site_name"
  shows "fst (regex_loop client sent property_id site_name regex_list start_date end_date final_data) =
         (case gather (fst (matrix_calls client sent (map (Pair property_id) regex_list) start_date end_date)) of
            Inl e \<Rightarrow> Inl e | Inr ys \<Rightarrow> Inr (final_data @ ys))"
  using assms
  by (induction regex_list arbitrary: sent final_data)
     (auto split: prod.splits sum.splits)

lemma regex_loop_sent:
  assumes "view_id_name_mapping property_id = Some site_name"
    and "regex_loop client sent property_id site_name regex_list start_date end_date final_data = (Inr fd, sent')"
  shows "sent' = snd (matrix_calls client sent (map (Pair property_id) regex_list) start_date end_date)"
  using assms(2)
proof (induction regex_list arbitrary: sent final_data)
  case Nil
  then show ?case by simp
next
  case (Cons regex rest)
  from Cons.prems obtain rows s1 where
    f: "fetch_ga4_data client sent property_id site_name regex start_date end_date = (Inr rows, s1)"
    and l: "regex_loop client s1 property_id site_name rest start_date end_date (final_data @ rows) = (Inr fd, sent')"
    by (auto split: prod.splits sum.splits)
  from Cons.IH [OF l] f assms(1) show ?case
    by (simp split: prod.splits)
qed

lemma matrix_calls_KeyError:
  "view_id_name_mapping property_id = None \<Longrightarrow> regex_list \<noteq> [] \<Longrightarrow>
   gather (fst (matrix_calls client sent (map (Pair property_id) regex_list @ others) start_date end_date)) = Inl KeyError"
  by (cases regex_list) (auto split: prod.splits)

lemma property_loop_gather:
  assumes "regex_list \<noteq> []"
  shows "fst (property_loop client sent selected_sites regex_list start_date end_date final_data) =
         (case gather (fst (matrix_calls client sent (List.product selected_sites regex_list) start_date end_date)) of
            Inl e \<Rightarrow> Inl e | Inr ys \<Rightarrow> Inr (final_data @ ys))"
proof (induction selected_sites arbitrary: sent final_data)
  case Nil
  then show ?case by simp
next
  case (Cons p ps)
  show ?case
  proof (cases "view_id_name_mapping p")
    case None
    then show ?thesis
      using matrix_calls_KeyError [OF None assms] by simp
  next
    case (Some site_name)
    obtain res s1 where rl: "regex_loop client sent p site_name regex_list start_date end_date final_data = (res, s1)"
      by (cases "regex_loop client sent p site_name regex_list start_date end_date final_data")
    obtain r1 t1 where mc: "matrix_calls client sent (map (Pair p) regex_list) start_date end_date = (r1, t1)"
      by (cases "matrix_calls client sent (map (Pair p) regex_list) start_date end_date")
    have g: "res = (case gather r1 of Inl e \<Rightarrow> Inl e | Inr ys \<Rightarrow> Inr (final_data @ ys))"
      using regex_loop_gather [OF Some, of client sent regex_list start_date end_date final_data] rl mc by simp
    show ?thesis
    proof (cases res)
      case (Inl e)
      with g have "gather r1 = Inl e" by (auto split: sum.splits)
      with Inl rl mc Some show ?thesis
        by (simp add: matrix_calls_append gather_append split: prod.splits)
    next
      case (Inr fd)
      with g obtain ys where ys: "gather r1 = Inr ys" and fd: "fd = final_data @ ys"
        by (auto split: sum.splits)
      have s: "s1 = t1"
        using regex_loop_sent [OF Some, of client sent regex_list start_date end_date final_data fd s1] rl Inr mc
        by simp
      show ?thesis
        using Inr rl mc Some ys fd s Cons.IH [of t1 fd]
        by (simp add: matrix_calls_append gather_append split: prod.splits sum.splits)
    qed
  qed
qed

lemma property_loop_sent:
  assumes "property_loop client sent selected_sites regex_list start_date end_date final_data = (Inr fd, sent')"
  shows "sent' = snd (matrix_calls client sent (List.product selected_sites regex_list) start_date end_date)"
  using assms
proof (induction selected_sites arbitrary: sent final_data)
  case Nil
  then show ?case by simp
next
  case (Cons p ps)
  from Cons.prems obtain site_name where Some: "view_id_name_mapping p = Some site_name"
    by (auto split: option.splits)
  from Cons.prems Some obtain fd1 s1 where
    rl: "regex_loop client sent p site_name regex_list start_date end_date final_data = (Inr fd1, s1)"
    and pl: "property_loop client s1 ps regex_list start_date end_date fd1 = (Inr fd, sent')"
    by (auto split: prod.splits sum.splits)
  have "s1 = snd (matrix_calls client sent (map (Pair p) regex_list) start_date end_date)"
    using regex_loop_sent [OF Some rl] .
  with Cons.IH [OF pl] show ?case
    by (simp add: matrix_calls_append split: prod.splits)
qed

subsection \<open>Flattening the rows of a response\<close>

lemma flatten_row_Inr:
  "flatten_row site_name regex r = Inr d \<longleftrightarrow>
     (2 \<le> length (dimension_values r) \<and> 2 \<le> length (metric_values r)
      \<and> (\<exists>u p. py_int (metric_values r ! 0) = Some u \<and> py_int (metric_values r ! 1) = Some p
            \<and> d = \<lparr>Site = site_name,
                    Year_Month = dimension_values r ! 0 @ ''-'' @ zfill 2 (dimension_values r ! 1),
                    Total_Users = u, Pageviews = p, Regex = regex\<rparr>))"
  by (auto simp: flatten_row_def getitem_def split: sum.splits option.splits if_splits)

lemma flatten_row_succeeds: "(\<exists>d. flatten_row site_name regex r = Inr d) \<longleftrightarrow> row_flattens r"
  by (auto simp: flatten_row_Inr row_flattens_def)

lemma flatten_row_fails: "(\<exists>e. flatten_row site_name regex r = Inl e) \<longleftrightarrow> \<not> row_flattens r"
  using flatten_row_succeeds [of site_name regex r]
  by (cases "flatten_row site_name regex r") auto

lemma flatten_rows_Inr:
  "flatten_rows site_name regex rs acc = Inr out \<Longrightarrow>
     map Inr out = map Inr acc @ map (flatten_row site_name regex) rs"
  by (induction rs arbitrary: acc) (auto split: sum.splits)

lemma flatten_rows_total:
  "\<forall>r \<in> set rs. row_flattens r \<Longrightarrow> \<exists>out. flatten_rows site_name regex rs acc = Inr out"
proof (induction rs arbitrary: acc)
  case Nil
  then show ?case by simp
next
  case (Cons r rs)
  then have "row_flattens r" by simp
  then obtain d where "flatten_row site_name regex r = Inr d"
    using flatten_row_succeeds by blast
  with Cons show ?case by simp
qed

lemma flatten_rows_fails:
  assumes "r \<in> set rs" and "\<not> row_flattens r"
  shows "\<exists>e. flatten_rows site_name regex rs acc = Inl e"
proof (cases "flatten_rows site_name regex rs acc")
  case (Inl e)
  then show ?thesis by blast
next
  case (Inr out)
  from flatten_rows_Inr [OF Inr] have "set (map (flatten_row site_name regex) rs) \<subseteq> range Inr"
    by (metis image_mono image_set map_append set_append subset_UNIV sup.boundedE image_image set_map)
  with assms(1) have "flatten_row site_name regex r \<in> range Inr" by auto
  with assms(2) flatten_row_succeeds show ?thesis by blast
qed

lemma fetch_result:
  "client sent (build_request property_id regex start_date end_date) = Inr response \<Longrightarrow>
   fst (fetch_ga4_data client sent property_id site_name regex start_date end_date) =
     flatten_rows site_name regex (response_rows response) []"
  by (simp add: fetch_ga4_data_def Let_def)

lemma fetch_Inr:
  "fst (fetch_ga4_data client sent property_id site_name regex start_date end_date) = Inr rows \<Longrightarrow>
   \<exists>response. client sent (build_request property_id regex start_date end_date) = Inr response
     \<and> map Inr rows = map (flatten_row site_name regex) (response_rows response)"
  by (auto simp: fetch_ga4_data_def Let_def split: sum.splits dest: flatten_rows_Inr)

subsection \<open>The structure of a completed run\<close>

lemma product_Nil2: "List.product xs [] = []"
  by (induction xs) auto

lemma property_loop_dom:
  "property_loop client sent selected_sites regex_list start_date end_date final_data = (Inr fd, sent')
   \<Longrightarrow> \<forall>p \<in> set selected_sites. view_id_name_mapping p \<noteq> None"
proof (induction selected_sites arbitrary: sent final_data)
  case Nil
  then show ?case by simp
next
  case (Cons p ps)
  from Cons.prems obtain site_name where Some: "view_id_name_mapping p = Some site_name"
    by (auto split: option.splits)
  from Cons.prems Some obtain fd1 s1 where
    "property_loop client s1 ps regex_list start_date end_date fd1 = (Inr fd, sent')"
    by (auto split: prod.splits sum.splits)
  from Cons.IH [OF this] Some show ?case by simp
qed

lemma property_loop_Nil:
  "\<forall>p \<in> set selected_sites. view_id_name_mapping p \<noteq> None \<Longrightarrow>
   property_loop client sent selected_sites [] start_date end_date final_data = (Inr final_data, sent)"
  by (induction selected_sites) auto

lemma property_loop_gather':
  assumes "regex_list \<noteq> [] \<or> (\<forall>p \<in> set selected_sites. view_id_name_mapping p \<noteq> None)"
  shows "fst (property_loop client sent selected_sites regex_list start_date end_date final_data) =
         (case gather (fst (matrix_calls client sent (List.product selected_sites regex_list) start_date end_date)) of
            Inl e \<Rightarrow> Inl e | Inr ys \<Rightarrow> Inr (final_data @ ys))"
proof (cases "regex_list = []")
  case True
  with assms have "\<forall>p \<in> set selected_sites. view_id_name_mapping p \<noteq> None" by simp
  from property_loop_Nil [OF this] True show ?thesis by (simp add: product_Nil2)
next
  case False
  then show ?thesis by (rule property_loop_gather)
qed

lemma matrix_calls_nth:
  assumes "\<forall>pr \<in> set pairs. view_id_name_mapping (fst pr) \<noteq> None"
  shows "length (fst (matrix_calls client sent pairs start_date end_date)) = length pairs
       \<and> snd (matrix_calls client sent pairs start_date end_date) = sent @ requests_for pairs start_date end_date
       \<and> (\<forall>k < length pairs. \<exists>site_name.
             view_id_name_mapping (fst (pairs ! k)) = Some site_name
           \<and> fst (matrix_calls client sent pairs start_date end_date) ! k =
               fst (fetch_ga4_data client (sent @ take k (requests_for pairs start_date end_date))
                      (fst (pairs ! k)) site_name (snd (pairs ! k)) start_date end_date))"
  using assms
proof (induction pairs arbitrary: sent)
  case Nil
  then show ?case by (simp add: requests_for_def)
next
  case (Cons pr rest)
  obtain p r where pr: "pr = (p, r)" by (cases pr)
  from Cons.prems pr obtain site_name where Some: "view_id_name_mapping p = Some site_name"
    by auto
  let ?req = "build_request p r start_date end_date"
  obtain res1 where f: "fetch_ga4_data client sent p site_name r start_date end_date = (res1, sent @ [?req])"
    using fetch_sent [of client sent p site_name r start_date end_date]
    by (cases "fetch_ga4_data client sent p site_name r start_date end_date") simp
  obtain results s' where m: "matrix_calls client (sent @ [?req]) rest start_date end_date = (results, s')"
    by (cases "matrix_calls client (sent @ [?req]) rest start_date end_date")
  have whole: "matrix_calls client sent (pr # rest) start_date end_date = (res1 # results, s')"
    using pr Some f m by simp
  have rq: "requests_for (pr # rest) start_date end_date = ?req # requests_for rest start_date end_date"
    using pr by (simp add: requests_for_def)
  from Cons.prems have "\<forall>pr \<in> set rest. view_id_name_mapping (fst pr) \<noteq> None" by simp
  from Cons.IH [OF this, of "sent @ [?req]"] m
  have len: "length results = length rest"
    and snd': "s' = sent @ [?req] @ requests_for rest start_date end_date"
    and nth: "\<And>k. k < length rest \<Longrightarrow> \<exists>site_name.
             view_id_name_mapping (fst (rest ! k)) = Some site_name
           \<and> results ! k =
               fst (fetch_ga4_data client ((sent @ [?req]) @ take k (requests_for rest start_date end_date))
                      (fst (rest ! k)) site_name (snd (rest ! k)) start_date end_date)"
    by auto
  have "\<exists>site_name.
             view_id_name_mapping (fst ((pr # rest) ! k)) = Some site_name
           \<and> (res1 # results) ! k =
               fst (fetch_ga4_data client (sent @ take k (requests_for (pr # rest) start_date end_date))
                      (fst ((pr # rest) ! k)) site_name (snd ((pr # rest) ! k)) start_date end_date)"
    if k: "k < length (pr # rest)" for k
  proof (cases k)
    case 0
    with pr Some f show ?thesis by simp
  next
    case (Suc j)
    with k have "j < length rest" by simp
    from nth [OF this] Suc rq show ?thesis by simp
  qed
  with whole len snd' rq show ?case by simp
qed

lemma concat_eq_Nil_nth: "concat rss = [] \<longleftrightarrow> (\<forall>k < length rss. rss ! k = [])"
  by (auto simp: in_set_conv_nth all_set_conv_all_nth)

lemma property_loop_structure:
  assumes "property_loop client sent selected_sites regex_list start_date end_date [] = (Inr final_data, sent')"
  shows "\<exists>rss. length rss = length (List.product selected_sites regex_list)
           \<and> final_data = concat rss
           \<and> fst (matrix_calls client sent (List.product selected_sites regex_list) start_date end_date) = map Inr rss
           \<and> sent' = sent @ requests_for (List.product selected_sites regex_list) start_date end_date
           \<and> (\<forall>k < length (List.product selected_sites regex_list). \<exists>site_name response.
                 view_id_name_mapping (fst (List.product selected_sites regex_list ! k)) = Some site_name
               \<and> client (sent @ take k (requests_for (List.product selected_sites regex_list) start_date end_date))
                    (requests_for (List.product selected_sites regex_list) start_date end_date ! k) = Inr response
               \<and> map Inr (rss ! k) =
                   map (flatten_row site_name (snd (List.product selected_sites regex_list ! k)))
                     (response_rows response))"
proof -
  let ?pairs = "List.product selected_sites regex_list"
  let ?reqs = "requests_for ?pairs start_date end_date"
  let ?mc = "matrix_calls client sent ?pairs start_date end_date"
  have dom: "\<forall>p \<in> set selected_sites. view_id_name_mapping p \<noteq> None"
    using property_loop_dom [OF assms] .
  then have dom': "\<forall>pr \<in> set ?pairs. view_id_name_mapping (fst pr) \<noteq> None" by auto
  from property_loop_gather' [of regex_list selected_sites client sent start_date end_date "[]"] dom assms
  have "gather (fst ?mc) = Inr final_data" by (auto split: sum.splits)
  from gather_Inr [OF this] obtain rss where rss: "fst ?mc = map Inr rss" and fd: "final_data = concat rss"
    by blast
  from matrix_calls_nth [OF dom', of client sent start_date end_date]
  have len: "length (fst ?mc) = length ?pairs"
    and snd': "snd ?mc = sent @ ?reqs"
    and nth: "\<And>k. k < length ?pairs \<Longrightarrow> \<exists>site_name.
             view_id_name_mapping (fst (?pairs ! k)) = Some site_name
           \<and> fst ?mc ! k = fst (fetch_ga4_data client (sent @ take k ?reqs)
                      (fst (?pairs ! k)) site_name (snd (?pairs ! k)) start_date end_date)"
    by auto
  from len rss have len': "length rss = length ?pairs" by simp
  have sent: "sent' = sent @ ?reqs"
    using property_loop_sent [OF assms] snd' by simp
  have "\<exists>site_name response.
                 view_id_name_mapping (fst (?pairs ! k)) = Some site_name
               \<and> client (sent @ take k ?reqs) (?reqs ! k) = Inr response
               \<and> map Inr (rss ! k) = map (flatten_row site_name (snd (?pairs ! k))) (response_rows response)"
    if k: "k < length ?pairs" for k
  proof -
    from nth [OF k] obtain site_name where
      nm: "view_id_name_mapping (fst (?pairs ! k)) = Some site_name"
      and fk: "fst ?mc ! k = fst (fetch_ga4_data client (sent @ take k ?reqs)
                      (fst (?pairs ! k)) site_name (snd (?pairs ! k)) start_date end_date)"
      by blast
    from rss k len' have "fst ?mc ! k = Inr (rss ! k)" by simp
    with fk have "fst (fetch_ga4_data client (sent @ take k ?reqs)
                      (fst (?pairs ! k)) site_name (snd (?pairs ! k)) start_date end_date) = Inr (rss ! k)"
      by simp
    from fetch_Inr [OF this] obtain response where
      "client (sent @ take k ?reqs) (build_request (fst (?pairs ! k)) (snd (?pairs ! k)) start_date end_date)
         = Inr response"
      and "map Inr (rss ! k) = map (flatten_row site_name (snd (?pairs ! k))) (response_rows response)"
      by blast
    moreover have "?reqs ! k = build_request (fst (?pairs ! k)) (snd (?pairs ! k)) start_date end_date"
      using k by (simp add: requests_for_def split_beta)
    ultimately show ?thesis using nm by auto
  qed
  with len' fd rss sent show ?thesis by blast
qed

subsection \<open>The text of the regex box and the main block\<close>

lemma strip_Nil_iff: "strip s = [] \<longleftrightarrow> (\<forall>c \<in> set s. isspace c)"
proof
  assume "strip s = []"
  then have "\<forall>c \<in> set (dropWhile isspace s). isspace c"
    by (simp add: strip_def dropWhile_eq_Nil_conv)
  moreover have "dropWhile isspace s \<noteq> [] \<Longrightarrow> \<not> isspace (hd (dropWhile isspace s))"
    by (rule hd_dropWhile)
  ultimately have "dropWhile isspace s = []"
    by (cases "dropWhile isspace s") auto
  then show "\<forall>c \<in> set s. isspace c" by (simp add: dropWhile_eq_Nil_conv)
next
  assume "\<forall>c \<in> set s. isspace c"
  then show "strip s = []" by (auto simp: strip_def dest: set_dropWhileD)
qed

lemma linebreak_isspace: "is_linebreak c \<Longrightarrow> isspace c"
  by (auto simp: is_linebreak_def isspace_def)

lemma splitlines_from_nonblank:
  "\<exists>c \<in> set (line @ cs). \<not> isspace c \<Longrightarrow>
   \<exists>l \<in> set (splitlines_from line cs). \<exists>c \<in> set l. \<not> isspace c"
proof (induction line cs rule: splitlines_from.induct)
  case (1 line)
  then show ?case by auto
next
  case (2 line c)
  then show ?case by (auto dest: linebreak_isspace)
next
  case (3 line c d cs)
  have cr: "isspace (CHR 0x0D)" and lf: "isspace (CHR 0x0A)" by (simp_all add: isspace_def)
  show ?case
  proof (cases "c = CHR 0x0D \<and> d = CHR 0x0A")
    case True
    with "3.prems" cr lf have "(\<exists>x \<in> set line. \<not> isspace x) \<or> (\<exists>x \<in> set ([] @ cs). \<not> isspace x)"
      by auto
    with True "3.IH"(1) show ?thesis by auto
  next
    case False
    show ?thesis
    proof (cases "is_linebreak c")
      case True
      with "3.prems" linebreak_isspace [of c]
      have "(\<exists>x \<in> set line. \<not> isspace x) \<or> (\<exists>x \<in> set ([] @ d # cs). \<not> isspace x)"
        by auto
      with False True "3.IH"(2) show ?thesis by auto
    next
      case nb: False
      from "3.prems" have "\<exists>x \<in> set ((line @ [c]) @ d # cs). \<not> isspace x" by auto
      with False nb "3.IH"(3) show ?thesis by auto
    qed
  qed
qed

lemma regex_list_nonempty: "strip regex_input \<noteq> [] \<Longrightarrow> regex_list_of regex_input \<noteq> []"
proof -
  assume "strip regex_input \<noteq> []"
  then have "\<exists>c \<in> set ([] @ regex_input). \<not> isspace c" by (simp add: strip_Nil_iff)
  from splitlines_from_nonblank [OF this] obtain l where
    l: "l \<in> set (splitlines regex_input)" and "\<exists>c \<in> set l. \<not> isspace c"
    by (auto simp: splitlines_def)
  then have "strip l \<noteq> []" by (simp add: strip_Nil_iff)
  with l have "l \<in> set (filter (\<lambda>r. strip r \<noteq> []) (splitlines regex_input))" by simp
  then show ?thesis unfolding regex_list_of_def by (metis Nil_is_map_conv empty_iff list.set(1))
qed

text \<open>The main block once the three checks have passed and the client is built.\<close>

lemma main_passed:
  assumes "fetch_btn" and "cred_file = Some cred" and "selected_sites \<noteq> []"
    and "strip regex_input \<noteq> []" and "make_client cred = Inr client"
  shows "main make_client fetch_btn cred_file start_date end_date selected_sites regex_input =
     (case property_loop client [] selected_sites (regex_list_of regex_input) start_date end_date [] of
        (Inl e, sent) \<Rightarrow> \<lparr>events = [], sent_requests = sent, raised = Some e\<rparr>
      | (Inr final_data, sent) \<Rightarrow>
          if final_data \<noteq> [] then
            \<lparr>events =
               [StSuccess (0x2705 # text_of ('' Data fetched: '' @ str_nat (length final_data) @ '' rows'')),
                StDataframe (DataFrame final_data),
                StDownloadButton (0x2B07 # 0xFE0F # text_of '' Download CSV'')
                  (encode_utf8 (to_csv (DataFrame final_data))) ''ga4_category_report.csv'' ''text/csv''],
             sent_requests = sent, raised = None\<rparr>
          else
            \<lparr>events = [StWarning (0x26A0 # 0xFE0F # text_of '' No data returned'')],
             sent_requests = sent, raised = None\<rparr>)"
  using assms
  by (simp add: main_def Let_def DataFrame_def split: prod.splits sum.splits)

lemma main_aborts:
  assumes "fetch_btn" and "cred_file = Some cred" and "selected_sites \<noteq> []"
    and "strip regex_input \<noteq> []" and "make_client cred = Inr client"
    and "fst (matrix_calls client [] (List.product selected_sites (regex_list_of regex_input))
                start_date end_date) = map Inr rss @ Inl e # rest"
  shows "raised (main make_client fetch_btn cred_file start_date end_date selected_sites regex_input) = Some e
       \<and> events (main make_client fetch_btn cred_file start_date end_date selected_sites regex_input) = []"
proof -
  have ne: "regex_list_of regex_input \<noteq> []" using assms(4) by (rule regex_list_nonempty)
  have "fst (property_loop client [] selected_sites (regex_list_of regex_input) start_date end_date [])
          = Inl e"
    using property_loop_gather [OF ne, of client "[]" selected_sites start_date end_date "[]"] assms(6)
    by (simp add: gather_Inl)
  then obtain sent where
    "property_loop client [] selected_sites (regex_list_of regex_input) start_date end_date [] = (Inl e, sent)"
    by (cases "property_loop client [] selected_sites (regex_list_of regex_input) start_date end_date []") simp
  with main_passed [where make_client = make_client and cred = cred, OF assms(1-5), of start_date end_date]
  show ?thesis by simp
qed

subsection \<open>Where the rows of the dataset come from\<close>

lemma final_data_origin:
  assumes "property_loop client sent selected_sites regex_list start_date end_date [] = (Inr final_data, sent')"
  shows "\<forall>d \<in> set final_data.
           \<exists>k < length (List.product selected_sites regex_list). \<exists>response r.
               client (sent @ take k (requests_for (List.product selected_sites regex_list) start_date end_date))
                 (build_request (fst (List.product selected_sites regex_list ! k))
                    (Regex d) start_date end_date) = Inr response
             \<and> r \<in> set (response_rows response)
             \<and> flatten_row (Site d) (Regex d) r = Inr d
             \<and> Regex d = snd (List.product selected_sites regex_list ! k)
             \<and> view_id_name_mapping (fst (List.product selected_sites regex_list ! k)) = Some (Site d)"
proof
  fix d assume d: "d \<in> set final_data"
  let ?pairs = "List.product selected_sites regex_list"
  let ?reqs = "requests_for ?pairs start_date end_date"
  from property_loop_structure [OF assms] obtain rss where
    len: "length rss = length ?pairs" and fd: "final_data = concat rss"
    and nth: "\<And>k. k < length ?pairs \<Longrightarrow> \<exists>site_name response.
                 view_id_name_mapping (fst (?pairs ! k)) = Some site_name
               \<and> client (sent @ take k ?reqs) (?reqs ! k) = Inr response
               \<and> map Inr (rss ! k) = map (flatten_row site_name (snd (?pairs ! k))) (response_rows response)"
    by blast
  from d fd obtain xs where "xs \<in> set rss" and dx: "d \<in> set xs" by auto
  then obtain k where k: "k < length rss" and "rss ! k = xs"
    by (auto simp: in_set_conv_nth)
  with dx have dk: "d \<in> set (rss ! k)" by simp
  from k len have k': "k < length ?pairs" by simp
  from nth [OF k'] obtain site_name response where
    nm: "view_id_name_mapping (fst (?pairs ! k)) = Some site_name"
    and cl: "client (sent @ take k ?reqs) (?reqs ! k) = Inr response"
    and mp: "map Inr (rss ! k) = map (flatten_row site_name (snd (?pairs ! k))) (response_rows response)"
    by blast
  from dk have "Inr d \<in> set (map Inr (rss ! k) :: (py_error + report_row) list)" by simp
  with mp obtain r where r: "r \<in> set (response_rows response)"
    and fr: "flatten_row site_name (snd (?pairs ! k)) r = Inr d"
    by auto
  from fr have sr: "Site d = site_name" "Regex d = snd (?pairs ! k)"
    by (auto simp: flatten_row_Inr)
  have rq: "?reqs ! k = build_request (fst (?pairs ! k)) (snd (?pairs ! k)) start_date end_date"
    using k' by (simp add: requests_for_def split_beta)
  from nm cl r fr sr rq
  have "client (sent @ take k ?reqs)
                 (build_request (fst (?pairs ! k)) (Regex d) start_date end_date) = Inr response
             \<and> r \<in> set (response_rows response)
             \<and> flatten_row (Site d) (Regex d) r = Inr d
             \<and> Regex d = snd (?pairs ! k)
             \<and> view_id_name_mapping (fst (?pairs ! k)) = Some (Site d)"
    by simp
  with k' show "\<exists>k < length ?pairs. \<exists>response r.
               client (sent @ take k ?reqs)
                 (build_request (fst (?pairs ! k)) (Regex d) start_date end_date) = Inr response
             \<and> r \<in> set (response_rows response)
             \<and> flatten_row (Site d) (Regex d) r = Inr d
             \<and> Regex d = snd (?pairs ! k)
             \<and> view_id_name_mapping (fst (?pairs ! k)) = Some (Site d)"
    by blast
qed

subsection \<open>Worked examples\<close>

lemma directory_examples:
  "view_id_name_mapping ''424738282'' = Some ''DNA English''"
  "view_id_name_mapping ''424752920'' = Some ''DNA Hindi''"
  by (simp_all add: view_id_name_mapping_def)

lemma py_int_examples:
  "py_int ''150'' = Some 150" "py_int ''300'' = Some 300" "py_int ''abc'' = None"
  by (simp_all add: py_int_def int_space_def is_digit_def digit_val_def decimal_value_def)

lemma example_run:
  "property_loop
     (\<lambda>sent request. Inr (RunReportResponse
        [\<lparr>dimension_values = [''2024'', str_nat (length sent)], metric_values = [''150'', ''300'']\<rparr>]))
     [] [''424738282'', ''424752920''] [''R1'', ''R2'']
     \<lparr>year = 2024, month = 8, day = 1\<rparr> \<lparr>year = 2024, month = 8, day = 31\<rparr> [] =
   (Inr [\<lparr>Site = ''DNA English'', Year_Month = ''2024-00'', Total_Users = 150, Pageviews = 300, Regex = ''R1''\<rparr>,
         \<lparr>Site = ''DNA English'', Year_Month = ''2024-01'', Total_Users = 150, Pageviews = 300, Regex = ''R2''\<rparr>,
         \<lparr>Site = ''DNA Hindi'', Year_Month = ''2024-02'', Total_Users = 150, Pageviews = 300, Regex = ''R1''\<rparr>,
         \<lparr>Site = ''DNA Hindi'', Year_Month = ''2024-03'', Total_Users = 150, Pageviews = 300, Regex = ''R2''\<rparr>],
    requests_for [(''424738282'', ''R1''), (''424738282'', ''R2''), (''424752920'', ''R1''), (''424752920'', ''R2'')]
       \<lparr>year = 2024, month = 8, day = 1\<rparr> \<lparr>year = 2024, month = 8, day = 31\<rparr>)"
  by (simp add: directory_examples py_int_examples fetch_ga4_data_def flatten_row_def getitem_def
      zfill_def str_nat.simps digit_char_def requests_for_def)

lemma regex_list_example:
  "regex_list_of ''.*'' = [''.*'']" "strip ''.*'' \<noteq> []"
  by (simp_all add: regex_list_of_def splitlines_def strip_def isspace_def is_linebreak_def)


subsection \<open>What \<open>int\<close> refuses\<close>

lemma parse_digits_digit: "parse_digits cs = Some ds \<Longrightarrow> \<exists>c \<in> set cs. is_digit c"
  by (cases cs rule: parse_digits.cases) (auto split: if_splits)

lemma py_int_digit: "py_int s = Some v \<Longrightarrow> \<exists>c \<in> set s. is_digit c"
proof -
  assume a: "py_int s = Some v"
  let ?t = "rev (dropWhile int_space (rev (dropWhile int_space s)))"
  have sub: "set ?t \<subseteq> set s"
  proof
    fix x assume "x \<in> set ?t"
    then have "x \<in> set (dropWhile int_space (rev (dropWhile int_space s)))" by simp
    then have "x \<in> set (rev (dropWhile int_space s))" by (rule set_dropWhileD)
    then have "x \<in> set (dropWhile int_space s)" by simp
    then show "x \<in> set s" by (rule set_dropWhileD)
  qed
  from a obtain c cs ds where t: "?t = c # cs"
    and pd: "parse_digits (if c = CHR ''+'' \<or> c = CHR ''-'' then cs else c # cs) = Some ds"
    by (auto simp: py_int_def split: list.splits option.splits if_splits)
  from parse_digits_digit [OF pd] have "\<exists>x \<in> set (c # cs). is_digit x"
    by (auto split: if_splits)
  with t sub show ?thesis by auto
qed

lemma flatten_row_ValueError:
  assumes "2 \<le> length (dimension_values r)"
    and "\<exists>i < 2. i < length (metric_values r) \<and> py_int (metric_values r ! i) = None"
  shows "flatten_row site_name regex r = Inl ValueError"
proof -
  from assms(2) have "(metric_values r \<noteq> [] \<and> py_int (metric_values r ! 0) = None)
      \<or> (2 \<le> length (metric_values r) \<and> py_int (metric_values r ! 1) = None)"
    by (auto simp: less_2_cases_iff)
  with assms(1) show ?thesis
    by (auto simp: flatten_row_def getitem_def split: option.splits)
qed

lemma bad_metric_not_flattens:
  "\<exists>i < 2. i < length (metric_values r) \<and> py_int (metric_values r ! i) = None \<Longrightarrow> \<not> row_flattens r"
  by (auto simp: row_flattens_def less_2_cases_iff)

subsection \<open>Two clients that answer alike\<close>

lemma regex_loop_cong:
  assumes "\<forall>sent. \<forall>regex \<in> set regex_list.
             client1 sent (build_request property_id regex start_date end_date)
           = client2 sent (build_request property_id regex start_date end_date)"
  shows "regex_loop client1 sent property_id site_name regex_list start_date end_date final_data
       = regex_loop client2 sent property_id site_name regex_list start_date end_date final_data"
  using assms
proof (induction regex_list arbitrary: sent final_data)
  case Nil
  then show ?case by simp
next
  case (Cons regex rest)
  have f: "fetch_ga4_data client1 sent property_id site_name regex start_date end_date
         = fetch_ga4_data client2 sent property_id site_name regex start_date end_date"
    using Cons.prems by (simp add: fetch_ga4_data_def)
  have r: "\<And>s fd. regex_loop client1 s property_id site_name rest start_date end_date fd
         = regex_loop client2 s property_id site_name rest start_date end_date fd"
    using Cons.IH Cons.prems by simp
  show ?case by (simp add: f r split: prod.splits sum.splits)
qed

lemma property_loop_cong:
  assumes "\<forall>sent. \<forall>property_id \<in> set selected_sites. \<forall>regex \<in> set regex_list.
             client1 sent (build_request property_id regex start_date end_date)
           = client2 sent (build_request property_id regex start_date end_date)"
  shows "property_loop client1 sent selected_sites regex_list start_date end_date final_data
       = property_loop client2 sent selected_sites regex_list start_date end_date final_data"
  using assms
proof (induction selected_sites arbitrary: sent final_data)
  case Nil
  then show ?case by simp
next
  case (Cons p ps)
  have i: "\<And>s site_name fd. regex_loop client1 s p site_name regex_list start_date end_date fd
         = regex_loop client2 s p site_name regex_list start_date end_date fd"
    using Cons.prems by (intro regex_loop_cong) simp
  have o: "\<And>s fd. property_loop client1 s ps regex_list start_date end_date fd
         = property_loop client2 s ps regex_list start_date end_date fd"
    using Cons.IH Cons.prems by simp
  show ?case by (simp add: i o split: option.splits prod.splits sum.splits)
qed

subsection \<open>The fields of the exported file\<close>










section \<open>The request built by the report fetcher\<close>



section \<open>The rows built from a response\<close>

text \<open>
  C2, as stated: \<open>Year_Month\<close> is the year value, a hyphen, and the month value left-padded
  with \<open>0\<close> to width 2. The program uses \<open>zfill\<close>, which puts the zero after a leading
  sign: for the month value \<open>-\<close> the field ends in \<open>-0\<close>, not in \<open>0-\<close>.
\<close>

theorem year_month_left_padded_counterexample:
  "flatten_row ''DNA English'' ''.*'' \<lparr>dimension_values = [''2024'', ''-''], metric_values = [''150'', ''300'']\<rparr>
     = Inr \<lparr>Site = ''DNA English'', Year_Month = ''2024--0'', Total_Users = 150, Pageviews = 300,
            Regex = ''.*''\<rparr>
   \<and> ''2024--0'' \<noteq> ''2024'' @ ''-'' @ left_padded 2 ''-''"
  by (simp add: flatten_row_def getitem_def zfill_def left_padded_def py_int_def int_space_def
      is_digit_def digit_val_def decimal_value_def)


text \<open>
  C2, amended: for every response row that is flattened, \<open>Year_Month\<close> is the year value, a
  hyphen, and the month value left-padded with \<open>0\<close> to width 2, except that a month value
  that is a lone sign character is followed by the zero. Year 2024 and month 3 give
  \<open>2024-03\<close>, month 11 gives \<open>2024-11\<close>.
\<close>

theorem year_month_zfill:
  assumes "flatten_row site_name regex r = Inr d"
  shows "2 \<le> length (dimension_values r) \<and>
         Year_Month d = dimension_values r ! 0 @ ''-'' @
           (let m = dimension_values r ! 1 in
            if m = ''+'' \<or> m = ''-'' then m @ ''0'' else left_padded 2 m)"
proof -
  let ?m = "dimension_values r ! 1"
  have "zfill 2 ?m = (if ?m = ''+'' \<or> ?m = ''-'' then ?m @ ''0'' else left_padded 2 ?m)"
  proof (cases ?m)
    case Nil
    then show ?thesis by (simp add: zfill_def left_padded_def numeral_2_eq_2)
  next
    case (Cons c cs)
    then show ?thesis
      by (cases cs) (auto simp: zfill_def left_padded_def)
  qed
  with assms show ?thesis
    by (auto simp: flatten_row_Inr Let_def)
qed

theorem year_month_zfill_witness:
  "flatten_row ''DNA English'' ''.*'' \<lparr>dimension_values = [''2024'', ''3''], metric_values = [''150'', ''300'']\<rparr>
     = Inr \<lparr>Site = ''DNA English'', Year_Month = ''2024-03'', Total_Users = 150, Pageviews = 300,
            Regex = ''.*''\<rparr>
   \<and> ''2024-03'' = ''2024'' @ ''-'' @ left_padded 2 ''3''
   \<and> flatten_row ''DNA English'' ''.*'' \<lparr>dimension_values = [''2024'', ''11''], metric_values = [''150'', ''300'']\<rparr>
     = Inr \<lparr>Site = ''DNA English'', Year_Month = ''2024-11'', Total_Users = 150, Pageviews = 300,
            Regex = ''.*''\<rparr>"
proof -
  have f: "flatten_row ''DNA English'' ''.*'' \<lparr>dimension_values = [''2024'', ''3''], metric_values = [''150'', ''300'']\<rparr>
     = Inr \<lparr>Site = ''DNA English'', Year_Month = ''2024-03'', Total_Users = 150, Pageviews = 300,
            Regex = ''.*''\<rparr>"
    by (simp add: flatten_row_def getitem_def zfill_def py_int_def int_space_def
        is_digit_def digit_val_def decimal_value_def)
  have g: "flatten_row ''DNA English'' ''.*'' \<lparr>dimension_values = [''2024'', ''11''], metric_values = [''150'', ''300'']\<rparr>
     = Inr \<lparr>Site = ''DNA English'', Year_Month = ''2024-11'', Total_Users = 150, Pageviews = 300,
            Regex = ''.*''\<rparr>"
    by (simp add: flatten_row_def getitem_def zfill_def py_int_def int_space_def
        is_digit_def digit_val_def decimal_value_def)
  from year_month_zfill [OF f] year_month_zfill [OF g] f g show ?thesis
    by (simp add: left_padded_def)
qed


text \<open>
  C10, as stated: every response row with at least two dimension values and at least two
  metric values is flattened. A row with a metric value that \<open>int\<close> refuses has both and
  still makes the fetch fail.
\<close>

theorem flattening_succeeds_counterexample:
  "2 \<le> length (dimension_values \<lparr>dimension_values = [''2024'', ''8''], metric_values = [''abc'', ''300'']\<rparr>)
   \<and> 2 \<le> length (metric_values \<lparr>dimension_values = [''2024'', ''8''], metric_values = [''abc'', ''300'']\<rparr>)
   \<and> flatten_row ''DNA English'' ''.*'' \<lparr>dimension_values = [''2024'', ''8''], metric_values = [''abc'', ''300'']\<rparr>
       = Inl ValueError
   \<and> fst (fetch_ga4_data
        (\<lambda>sent request. Inr (RunReportResponse
            [\<lparr>dimension_values = [''2024'', ''8''], metric_values = [''abc'', ''300'']\<rparr>]))
        [] ''424738282'' ''DNA English'' ''.*'' \<lparr>year = 2024, month = 8, day = 1\<rparr>
        \<lparr>year = 2024, month = 8, day = 31\<rparr>) = Inl ValueError"
  by (simp add: fetch_ga4_data_def flatten_row_def getitem_def py_int_def int_space_def is_digit_def)


text \<open>
  C10, amended: the loop indexes the first two dimension values and the first two metric
  values of each row without a guard. When the service answers, the fetch succeeds, with
  one row for each response row, if every response row has at least two dimension values
  and at least two metric values and its first two metric values are accepted by \<open>int\<close>;
  and a response row with fewer than two of either makes the fetch fail, so that no row at
  all is returned.
\<close>

theorem fetch_flattening:
  assumes "client sent (build_request property_id regex start_date end_date) = Inr response"
  shows "((\<forall>r \<in> set (response_rows response).
            2 \<le> length (dimension_values r) \<and> 2 \<le> length (metric_values r)
            \<and> py_int (metric_values r ! 0) \<noteq> None \<and> py_int (metric_values r ! 1) \<noteq> None)
          \<longrightarrow> (\<exists>rows. fst (fetch_ga4_data client sent property_id site_name regex start_date end_date)
                          = Inr rows
                       \<and> length rows = length (response_rows response)))
       \<and> ((\<exists>r \<in> set (response_rows response).
              length (dimension_values r) < 2 \<or> length (metric_values r) < 2)
          \<longrightarrow> (\<exists>e. fst (fetch_ga4_data client sent property_id site_name regex start_date end_date)
                      = Inl e))"
proof (intro conjI impI)
  have fr: "fst (fetch_ga4_data client sent property_id site_name regex start_date end_date) =
      flatten_rows site_name regex (response_rows response) []"
    using assms by (simp add: fetch_ga4_data_def Let_def)
  {
  assume "\<forall>r \<in> set (response_rows response).
            2 \<le> length (dimension_values r) \<and> 2 \<le> length (metric_values r)
            \<and> py_int (metric_values r ! 0) \<noteq> None \<and> py_int (metric_values r ! 1) \<noteq> None"
  then have "\<forall>r \<in> set (response_rows response). row_flattens r"
    by (simp add: row_flattens_def)
  from flatten_rows_total [OF this] obtain out where
    out: "flatten_rows site_name regex (response_rows response) [] = Inr out" by blast
  from flatten_rows_Inr [OF out] have "length (map Inr out :: (py_error + report_row) list) =
      length (map (flatten_row site_name regex) (response_rows response))" by simp
  then have "length out = length (response_rows response)" by simp
  with out fr
  show "\<exists>rows. fst (fetch_ga4_data client sent property_id site_name regex start_date end_date) = Inr rows
           \<and> length rows = length (response_rows response)" by simp
  }
  assume "\<exists>r \<in> set (response_rows response).
              length (dimension_values r) < 2 \<or> length (metric_values r) < 2"
  then obtain r where r: "r \<in> set (response_rows response)" and "\<not> row_flattens r"
    by (auto simp: row_flattens_def)
  from flatten_rows_fails [OF this] fr
  show "\<exists>e. fst (fetch_ga4_data client sent property_id site_name regex start_date end_date) = Inl e"
    by simp
qed


theorem fetch_flattening_witness:
  "fst (fetch_ga4_data
        (\<lambda>sent request. Inr (RunReportResponse
            [\<lparr>dimension_values = [''2024'', ''8''], metric_values = [''150'', ''300'']\<rparr>]))
        [] ''424738282'' ''DNA English'' ''.*(/mp/).*'' \<lparr>year = 2024, month = 8, day = 1\<rparr>
        \<lparr>year = 2024, month = 8, day = 31\<rparr>)
     = Inr [\<lparr>Site = ''DNA English'', Year_Month = ''2024-08'', Total_Users = 150, Pageviews = 300,
              Regex = ''.*(/mp/).*''\<rparr>]
   \<and> (\<exists>e. fst (fetch_ga4_data
        (\<lambda>sent request. Inr (RunReportResponse
            [\<lparr>dimension_values = [''2024''], metric_values = [''150'', ''300'']\<rparr>]))
        [] ''424738282'' ''DNA English'' ''.*(/mp/).*'' \<lparr>year = 2024, month = 8, day = 1\<rparr>
        \<lparr>year = 2024, month = 8, day = 31\<rparr>) = Inl e)"
proof -
  let ?good = "RunReportResponse
            [\<lparr>dimension_values = [''2024'', ''8''], metric_values = [''150'', ''300'']\<rparr>]"
  let ?short = "RunReportResponse
            [\<lparr>dimension_values = [''2024''], metric_values = [''150'', ''300'']\<rparr>]"
  let ?sd = "\<lparr>year = 2024, month = 8, day = 1\<rparr>"
  let ?ed = "\<lparr>year = 2024, month = 8, day = 31\<rparr>"
  have p: "py_int ''150'' = Some 150" "py_int ''300'' = Some 300"
    by (simp_all add: py_int_def int_space_def is_digit_def digit_val_def decimal_value_def)
  have a: "fst (fetch_ga4_data (\<lambda>sent request. Inr ?good) [] ''424738282'' ''DNA English''
             ''.*(/mp/).*'' ?sd ?ed)
     = Inr [\<lparr>Site = ''DNA English'', Year_Month = ''2024-08'', Total_Users = 150, Pageviews = 300,
              Regex = ''.*(/mp/).*''\<rparr>]"
    by (simp add: fetch_ga4_data_def flatten_row_def getitem_def zfill_def p)
  have b: "\<exists>e. fst (fetch_ga4_data (\<lambda>sent request. Inr ?short) [] ''424738282'' ''DNA English''
             ''.*(/mp/).*'' ?sd ?ed) = Inl e"
    using fetch_flattening [where client = "\<lambda>sent request. Inr ?short" and sent = "[]"
        and property_id = "''424738282''" and regex = "''.*(/mp/).*''" and start_date = ?sd
        and end_date = ?ed and response = "?short" and site_name = "''DNA English''"] by simp
  have c: "\<exists>rows. fst (fetch_ga4_data (\<lambda>sent request. Inr ?good) [] ''424738282'' ''DNA English''
             ''.*(/mp/).*'' ?sd ?ed) = Inr rows \<and> length rows = length (response_rows ?good)"
    using fetch_flattening [where client = "\<lambda>sent request. Inr ?good" and sent = "[]"
        and property_id = "''424738282''" and regex = "''.*(/mp/).*''" and start_date = ?sd
        and end_date = ?ed and response = "?good" and site_name = "''DNA English''"] by (simp add: p)
  from a b c show ?thesis by simp
qed

section \<open>The order and the origin of the rows of the dataset\<close>

text \<open>
  C3: when the two nested loops complete, the dataset is the concatenation of one row list
  for each pair of a property and a regex, the pairs taken with the properties in their
  given order and, for each property, the regexes in their given order (\<open>List.product\<close>:
  for \<open>[P1, P2]\<close> and \<open>[R1, R2]\<close> the order \<open>P1 R1, P1 R2, P2 R1, P2 R2\<close>). The requests
  were sent in that order, and the row list of each pair holds the flattened rows of the
  response to its request, in the order of the response.
\<close>

theorem main_loop_order:
  assumes "property_loop client sent selected_sites regex_list start_date end_date [] = (Inr final_data, sent')"
  shows "\<exists>rss. length rss = length (List.product selected_sites regex_list)
           \<and> final_data = concat rss
           \<and> sent' = sent @ requests_for (List.product selected_sites regex_list) start_date end_date
           \<and> (\<forall>k < length (List.product selected_sites regex_list). \<exists>site_name response.
                 view_id_name_mapping (fst (List.product selected_sites regex_list ! k)) = Some site_name
               \<and> client (sent @ take k (requests_for (List.product selected_sites regex_list) start_date end_date))
                    (requests_for (List.product selected_sites regex_list) start_date end_date ! k) = Inr response
               \<and> map Inr (rss ! k) =
                   map (flatten_row site_name (snd (List.product selected_sites regex_list ! k)))
                     (response_rows response))"
  using property_loop_structure [OF assms] by blast

theorem main_loop_order_witness:
  "property_loop
     (\<lambda>sent request. Inr (RunReportResponse
        [\<lparr>dimension_values = [''2024'', str_nat (length sent)], metric_values = [''150'', ''300'']\<rparr>]))
     [] [''424738282'', ''424752920''] [''R1'', ''R2'']
     \<lparr>year = 2024, month = 8, day = 1\<rparr> \<lparr>year = 2024, month = 8, day = 31\<rparr> [] =
   (Inr [\<lparr>Site = ''DNA English'', Year_Month = ''2024-00'', Total_Users = 150, Pageviews = 300, Regex = ''R1''\<rparr>,
         \<lparr>Site = ''DNA English'', Year_Month = ''2024-01'', Total_Users = 150, Pageviews = 300, Regex = ''R2''\<rparr>,
         \<lparr>Site = ''DNA Hindi'', Year_Month = ''2024-02'', Total_Users = 150, Pageviews = 300, Regex = ''R1''\<rparr>,
         \<lparr>Site = ''DNA Hindi'', Year_Month = ''2024-03'', Total_Users = 150, Pageviews = 300, Regex = ''R2''\<rparr>],
    requests_for [(''424738282'', ''R1''), (''424738282'', ''R2''), (''424752920'', ''R1''), (''424752920'', ''R2'')]
       \<lparr>year = 2024, month = 8, day = 1\<rparr> \<lparr>year = 2024, month = 8, day = 31\<rparr>)
   \<and> (\<exists>rss. length rss = 4
         \<and> [\<lparr>Site = ''DNA English'', Year_Month = ''2024-00'', Total_Users = 150, Pageviews = 300, Regex = ''R1''\<rparr>,
             \<lparr>Site = ''DNA English'', Year_Month = ''2024-01'', Total_Users = 150, Pageviews = 300, Regex = ''R2''\<rparr>,
             \<lparr>Site = ''DNA Hindi'', Year_Month = ''2024-02'', Total_Users = 150, Pageviews = 300, Regex = ''R1''\<rparr>,
             \<lparr>Site = ''DNA Hindi'', Year_Month = ''2024-03'', Total_Users = 150, Pageviews = 300, Regex = ''R2''\<rparr>]
            = concat rss)"
proof -
  let ?client = "\<lambda>(sent :: run_report_request list) (request :: run_report_request).
     (Inr (RunReportResponse
        [\<lparr>dimension_values = [''2024'', str_nat (length sent)], metric_values = [''150'', ''300'']\<rparr>])
      :: py_error + run_report_response)"
  let ?sd = "\<lparr>year = 2024, month = 8, day = 1\<rparr>"
  let ?ed = "\<lparr>year = 2024, month = 8, day = 31\<rparr>"
  let ?rows = "[\<lparr>Site = ''DNA English'', Year_Month = ''2024-00'', Total_Users = 150, Pageviews = 300, Regex = ''R1''\<rparr>,
         \<lparr>Site = ''DNA English'', Year_Month = ''2024-01'', Total_Users = 150, Pageviews = 300, Regex = ''R2''\<rparr>,
         \<lparr>Site = ''DNA Hindi'', Year_Month = ''2024-02'', Total_Users = 150, Pageviews = 300, Regex = ''R1''\<rparr>,
         \<lparr>Site = ''DNA Hindi'', Year_Month = ''2024-03'', Total_Users = 150, Pageviews = 300, Regex = ''R2''\<rparr>]"
  let ?pairs = "[(''424738282'', ''R1''), (''424738282'', ''R2''), (''424752920'', ''R1''), (''424752920'', ''R2'')]"
  note run = example_run
  from main_loop_order [OF run] obtain rss where
    "length rss = length (List.product [''424738282'', ''424752920''] [''R1'', ''R2''])"
    and "?rows = concat rss"
    by blast
  then have "length rss = 4 \<and> ?rows = concat rss" by simp
  then have "\<exists>rss. length rss = 4 \<and> ?rows = concat rss" by (rule exI)
  with run show ?thesis by simp
qed

text \<open>
  C8: every row of the final dataset was flattened from a row of the response to the
  request built for some pair of a property and a regex of the run; its \<open>Regex\<close> field is
  that regex, the one in the filter of the request, and its \<open>Site\<close> field is the name under
  which the directory lists that property.
\<close>

theorem rows_carry_site_and_regex:
  assumes "property_loop client sent selected_sites regex_list start_date end_date [] = (Inr final_data, sent')"
  shows "\<forall>d \<in> set final_data.
           \<exists>k < length (List.product selected_sites regex_list). \<exists>response r.
               client (sent @ take k (requests_for (List.product selected_sites regex_list) start_date end_date))
                 (build_request (fst (List.product selected_sites regex_list ! k))
                    (Regex d) start_date end_date) = Inr response
             \<and> r \<in> set (response_rows response)
             \<and> flatten_row (Site d) (Regex d) r = Inr d
             \<and> Regex d = snd (List.product selected_sites regex_list ! k)
             \<and> view_id_name_mapping (fst (List.product selected_sites regex_list ! k)) = Some (Site d)"
  using final_data_origin [OF assms] .

theorem rows_carry_site_and_regex_witness:
  "property_loop
     (\<lambda>sent request. Inr (RunReportResponse
        [\<lparr>dimension_values = [''2024'', str_nat (length sent)], metric_values = [''150'', ''300'']\<rparr>]))
     [] [''424738282'', ''424752920''] [''R1'', ''R2'']
     \<lparr>year = 2024, month = 8, day = 1\<rparr> \<lparr>year = 2024, month = 8, day = 31\<rparr> [] =
   (Inr [\<lparr>Site = ''DNA English'', Year_Month = ''2024-00'', Total_Users = 150, Pageviews = 300, Regex = ''R1''\<rparr>,
         \<lparr>Site = ''DNA English'', Year_Month = ''2024-01'', Total_Users = 150, Pageviews = 300, Regex = ''R2''\<rparr>,
         \<lparr>Site = ''DNA Hindi'', Year_Month = ''2024-02'', Total_Users = 150, Pageviews = 300, Regex = ''R1''\<rparr>,
         \<lparr>Site = ''DNA Hindi'', Year_Month = ''2024-03'', Total_Users = 150, Pageviews = 300, Regex = ''R2''\<rparr>],
    requests_for [(''424738282'', ''R1''), (''424738282'', ''R2''), (''424752920'', ''R1''), (''424752920'', ''R2'')]
       \<lparr>year = 2024, month = 8, day = 1\<rparr> \<lparr>year = 2024, month = 8, day = 31\<rparr>)
   \<and> (\<exists>k < length (List.product [''424738282'', ''424752920''] [''R1'', ''R2'']).
          ''R1'' = snd (List.product [''424738282'', ''424752920''] [''R1'', ''R2''] ! k)
        \<and> view_id_name_mapping (fst (List.product [''424738282'', ''424752920''] [''R1'', ''R2''] ! k))
            = Some ''DNA Hindi'')"
proof -
  let ?d = "\<lparr>Site = ''DNA Hindi'', Year_Month = ''2024-02'', Total_Users = 150, Pageviews = 300,
             Regex = ''R1''\<rparr>"
  let ?pairs = "List.product [''424738282'', ''424752920''] [''R1'', ''R2'']"
  note all = rows_carry_site_and_regex [OF example_run]
  have "?d \<in> set [\<lparr>Site = ''DNA English'', Year_Month = ''2024-00'', Total_Users = 150, Pageviews = 300, Regex = ''R1''\<rparr>,
         \<lparr>Site = ''DNA English'', Year_Month = ''2024-01'', Total_Users = 150, Pageviews = 300, Regex = ''R2''\<rparr>,
         \<lparr>Site = ''DNA Hindi'', Year_Month = ''2024-02'', Total_Users = 150, Pageviews = 300, Regex = ''R1''\<rparr>,
         \<lparr>Site = ''DNA Hindi'', Year_Month = ''2024-03'', Total_Users = 150, Pageviews = 300, Regex = ''R2''\<rparr>]"
    by simp
  from bspec [OF all this] obtain k where "k < length ?pairs"
    and "Regex ?d = snd (?pairs ! k)"
    and "view_id_name_mapping (fst (?pairs ! k)) = Some (Site ?d)"
    by blast
  then have "k < length ?pairs \<and> ''R1'' = snd (?pairs ! k)
      \<and> view_id_name_mapping (fst (?pairs ! k)) = Some ''DNA Hindi''"
    by simp
  then have "\<exists>k < length ?pairs. ''R1'' = snd (?pairs ! k)
      \<and> view_id_name_mapping (fst (?pairs ! k)) = Some ''DNA Hindi''"
    by blast
  with example_run show ?thesis by blast
qed

section \<open>Failures\<close>

text \<open>
  C6: the two metric values of a row go through \<open>int\<close>. A value that \<open>int\<close> refuses (any
  string without a decimal digit is one) raises \<open>ValueError\<close> in the row that holds it; a
  row that is flattened carries the integers that \<open>int\<close> returned, so nothing is coerced. A
  fetch whose response holds such a row fails, and so does a fetch whose service call
  fails, with the error of the service. In a run that passed the three checks, when a call
  fails after the calls before it succeeded, the main block ends with that error and
  shows nothing: no table, no download.
\<close>

theorem metric_failure_aborts_run:
  "(2 \<le> length (dimension_values r_a)
      \<and> (\<exists>i < 2. i < length (metric_values r_a) \<and> py_int (metric_values r_a ! i) = None)
      \<longrightarrow> flatten_row site_a regex_a r_a = Inl ValueError)
   \<and> ((\<forall>c \<in> set s. \<not> is_digit c) \<longrightarrow> py_int s = None)
   \<and> (flatten_row site_b regex_b r_b = Inr d
      \<longrightarrow> py_int (metric_values r_b ! 0) = Some (Total_Users d)
        \<and> py_int (metric_values r_b ! 1) = Some (Pageviews d))
   \<and> (client_c sent_c (build_request property_c regex_c start_c end_c) = Inr response
        \<and> (\<exists>r \<in> set (response_rows response).
              \<exists>i < 2. i < length (metric_values r) \<and> py_int (metric_values r ! i) = None)
      \<longrightarrow> (\<exists>e. fst (fetch_ga4_data client_c sent_c property_c site_c regex_c start_c end_c)
                  = Inl e))
   \<and> (client_d sent_d (build_request property_d regex_d start_d end_d) = Inl e_d
      \<longrightarrow> fst (fetch_ga4_data client_d sent_d property_d site_d regex_d start_d end_d)
            = Inl e_d)
   \<and> (fetch_btn \<and> cred_file = Some cred \<and> selected_sites \<noteq> [] \<and> strip regex_input \<noteq> []
        \<and> make_client cred = Inr client
        \<and> fst (matrix_calls client [] (List.product selected_sites (regex_list_of regex_input))
                  start_date end_date) = map Inr rss @ Inl e # rest
      \<longrightarrow> raised (main make_client fetch_btn cred_file start_date end_date selected_sites regex_input)
            = Some e
        \<and> events (main make_client fetch_btn cred_file start_date end_date selected_sites regex_input)
            = [])"
proof (intro conjI impI)
  assume "2 \<le> length (dimension_values r_a)
      \<and> (\<exists>i < 2. i < length (metric_values r_a) \<and> py_int (metric_values r_a ! i) = None)"
  then show "flatten_row site_a regex_a r_a = Inl ValueError"
    using flatten_row_ValueError by blast
next
  assume "\<forall>c \<in> set s. \<not> is_digit c"
  then show "py_int s = None"
    using py_int_digit [of s] by (cases "py_int s") auto
next
  assume "flatten_row site_b regex_b r_b = Inr d"
  then show "py_int (metric_values r_b ! 0) = Some (Total_Users d)"
    and "py_int (metric_values r_b ! 1) = Some (Pageviews d)"
    by (auto simp: flatten_row_Inr)
next
  assume a: "client_c sent_c (build_request property_c regex_c start_c end_c) = Inr response
        \<and> (\<exists>r \<in> set (response_rows response).
              \<exists>i < 2. i < length (metric_values r) \<and> py_int (metric_values r ! i) = None)"
  then obtain r where r: "r \<in> set (response_rows response)" and "\<not> row_flattens r"
    using bad_metric_not_flattens by blast
  from flatten_rows_fails [OF this] a
  show "\<exists>e. fst (fetch_ga4_data client_c sent_c property_c site_c regex_c start_c end_c) = Inl e"
    by (simp add: fetch_ga4_data_def Let_def)
next
  assume "client_d sent_d (build_request property_d regex_d start_d end_d) = Inl e_d"
  then show "fst (fetch_ga4_data client_d sent_d property_d site_d regex_d start_d end_d) = Inl e_d"
    by (simp add: fetch_ga4_data_def Let_def)
next
  assume a: "fetch_btn \<and> cred_file = Some cred \<and> selected_sites \<noteq> [] \<and> strip regex_input \<noteq> []
        \<and> make_client cred = Inr client
        \<and> fst (matrix_calls client [] (List.product selected_sites (regex_list_of regex_input))
                  start_date end_date) = map Inr rss @ Inl e # rest"
  then have g: "fetch_btn" "cred_file = Some cred" "selected_sites \<noteq> []" "strip regex_input \<noteq> []"
    "make_client cred = Inr client"
    "fst (matrix_calls client [] (List.product selected_sites (regex_list_of regex_input))
                  start_date end_date) = map Inr rss @ Inl e # rest"
    by simp_all
  from main_aborts [where make_client = make_client and cred = cred, OF g]
  show "raised (main make_client fetch_btn cred_file start_date end_date selected_sites regex_input) = Some e"
    and "events (main make_client fetch_btn cred_file start_date end_date selected_sites regex_input) = []"
    by simp_all
qed


theorem metric_failure_aborts_run_witness:
  "flatten_row ''DNA English'' ''.*''
      \<lparr>dimension_values = [''2024'', ''8''], metric_values = [''abc'', ''300'']\<rparr> = Inl ValueError
   \<and> py_int ''abc'' = None
   \<and> py_int ''150'' = Some 150
   \<and> (\<exists>e. fst (fetch_ga4_data
        (\<lambda>sent request. Inr (RunReportResponse
           [\<lparr>dimension_values = [''2024'', ''8''], metric_values = [''abc'', ''300'']\<rparr>]))
        [] ''424738282'' ''DNA English'' ''.*'' \<lparr>year = 2024, month = 8, day = 1\<rparr>
        \<lparr>year = 2024, month = 8, day = 31\<rparr>) = Inl e)
   \<and> fst (fetch_ga4_data (\<lambda>sent request. Inl (ApiError ''quota''))
        [] ''424738282'' ''DNA English'' ''.*'' \<lparr>year = 2024, month = 8, day = 1\<rparr>
        \<lparr>year = 2024, month = 8, day = 31\<rparr>) = Inl (ApiError ''quota'')
   \<and> raised (main (\<lambda>cred :: unit. Inr (\<lambda>sent request. Inr (RunReportResponse
           [\<lparr>dimension_values = [''2024'', ''8''], metric_values = [''abc'', ''300'']\<rparr>])))
        True (Some ()) \<lparr>year = 2024, month = 8, day = 1\<rparr> \<lparr>year = 2024, month = 8, day = 31\<rparr>
        [''424738282''] ''.*'') = Some ValueError
   \<and> events (main (\<lambda>cred :: unit. Inr (\<lambda>sent request. Inr (RunReportResponse
           [\<lparr>dimension_values = [''2024'', ''8''], metric_values = [''abc'', ''300'']\<rparr>])))
        True (Some ()) \<lparr>year = 2024, month = 8, day = 1\<rparr> \<lparr>year = 2024, month = 8, day = 31\<rparr>
        [''424738282''] ''.*'') = []"
proof -
  let ?bad = "\<lparr>dimension_values = [''2024'', ''8''], metric_values = [''abc'', ''300'']\<rparr>"
  let ?good = "\<lparr>dimension_values = [''2024'', ''8''], metric_values = [''150'', ''300'']\<rparr>"
  let ?d = "\<lparr>Site = ''DNA English'', Year_Month = ''2024-08'', Total_Users = 150, Pageviews = 300,
             Regex = ''.*''\<rparr>"
  let ?client = "\<lambda>(sent :: run_report_request list) (request :: run_report_request).
     (Inr (RunReportResponse [?bad]) :: py_error + run_report_response)"
  let ?failing = "\<lambda>(sent :: run_report_request list) (request :: run_report_request).
     (Inl (ApiError ''quota'') :: py_error + run_report_response)"
  let ?sd = "\<lparr>year = 2024, month = 8, day = 1\<rparr>"
  let ?ed = "\<lparr>year = 2024, month = 8, day = 31\<rparr>"
  have rl: "regex_list_of ''.*'' = [''.*'']" and st: "strip ''.*'' \<noteq> []"
    by (simp_all add: regex_list_of_def splitlines_def strip_def isspace_def is_linebreak_def)
  have good: "flatten_row ''DNA English'' ''.*'' ?good = Inr ?d"
    by (simp add: flatten_row_def getitem_def zfill_def py_int_examples)
  have calls: "fst (matrix_calls ?client [] (List.product [''424738282''] (regex_list_of ''.*'')) ?sd ?ed)
      = map Inr [] @ Inl ValueError # []"
    by (simp add: rl directory_examples fetch_ga4_data_def flatten_row_def getitem_def py_int_examples)
  have digits: "\<forall>c \<in> set ''abc''. \<not> is_digit c" by (simp add: is_digit_def)
  have bad: "\<exists>i < 2. i < length (metric_values ?bad) \<and> py_int (metric_values ?bad ! i) = None"
    by (rule exI [of _ 0]) (simp add: py_int_examples)
  from metric_failure_aborts_run [where r_a = ?bad and site_a = "''DNA English''" and regex_a = "''.*''"
      and s = "''abc''" and r_b = ?good and site_b = "''DNA English''" and regex_b = "''.*''" and d = ?d
      and client_c = ?client and sent_c = "[]" and property_c = "''424738282''" and regex_c = "''.*''"
      and start_c = ?sd and end_c = ?ed and response = "RunReportResponse [?bad]"
      and site_c = "''DNA English''"
      and client_d = ?failing and sent_d = "[]" and property_d = "''424738282''" and regex_d = "''.*''"
      and start_d = ?sd and end_d = ?ed and e_d = "ApiError ''quota''"
      and site_d = "''DNA English''"
      and fetch_btn = True and cred_file = "Some ()" and cred = "()" and selected_sites = "[''424738282'']"
      and regex_input = "''.*''" and make_client = "\<lambda>cred :: unit. Inr ?client" and client = ?client
      and start_date = ?sd and end_date = ?ed and rss = "[]" and e = ValueError and rest = "[]"]
    good calls digits bad st
  show ?thesis by simp
qed

section \<open>The empty result\<close>

text \<open>
  C7: in a run that passed the three checks and completed every call of the matrix (which
  is not empty), the dataset is empty exactly when every call's response had zero rows;
  then the main block shows the one warning that no data was returned, no error, and ends
  without an exception. When the dataset is not empty, no warning is shown.
\<close>

theorem empty_result:
  assumes "fetch_btn" and "cred_file = Some cred" and "selected_sites \<noteq> []"
    and "strip regex_input \<noteq> []" and "make_client cred = Inr client"
    and "property_loop client [] selected_sites (regex_list_of regex_input) start_date end_date []
           = (Inr final_data, sent)"
  shows "List.product selected_sites (regex_list_of regex_input) \<noteq> []
       \<and> (final_data = [] \<longleftrightarrow>
            (\<forall>k < length (List.product selected_sites (regex_list_of regex_input)). \<exists>response.
               client (take k (requests_for (List.product selected_sites (regex_list_of regex_input))
                                 start_date end_date))
                 (requests_for (List.product selected_sites (regex_list_of regex_input))
                    start_date end_date ! k) = Inr response
               \<and> response_rows response = []))
       \<and> (final_data = [] \<longrightarrow>
            main make_client fetch_btn cred_file start_date end_date selected_sites regex_input =
              \<lparr>events = [StWarning (0x26A0 # 0xFE0F # text_of '' No data returned'')],
               sent_requests = requests_for (List.product selected_sites (regex_list_of regex_input))
                                 start_date end_date,
               raised = None\<rparr>)
       \<and> (final_data \<noteq> [] \<longrightarrow>
            (\<forall>w. StWarning w \<notin> set (events
               (main make_client fetch_btn cred_file start_date end_date selected_sites regex_input))))"
proof -
  let ?pairs = "List.product selected_sites (regex_list_of regex_input)"
  let ?reqs = "requests_for ?pairs start_date end_date"
  have ne: "regex_list_of regex_input \<noteq> []" using assms(4) by (rule regex_list_nonempty)
  with assms(3) have "length ?pairs \<noteq> 0" by simp
  then have pne: "?pairs \<noteq> []" by (simp del: length_product)
  from property_loop_structure [OF assms(6)] obtain rss where
    len: "length rss = length ?pairs" and fd: "final_data = concat rss"
    and sent: "sent = ?reqs"
    and nth: "\<And>k. k < length ?pairs \<Longrightarrow> \<exists>site_name response.
                 view_id_name_mapping (fst (?pairs ! k)) = Some site_name
               \<and> client (take k ?reqs) (?reqs ! k) = Inr response
               \<and> map Inr (rss ! k) = map (flatten_row site_name (snd (?pairs ! k))) (response_rows response)"
    by auto
  have each: "rss ! k = [] \<longleftrightarrow>
      (\<exists>response. client (take k ?reqs) (?reqs ! k) = Inr response \<and> response_rows response = [])"
    if k: "k < length ?pairs" for k
  proof -
    from nth [OF k] obtain site_name response where
      cl: "client (take k ?reqs) (?reqs ! k) = Inr response"
      and mp: "map Inr (rss ! k) = map (flatten_row site_name (snd (?pairs ! k))) (response_rows response)"
      by blast
    from mp have "length (rss ! k) = length (response_rows response)"
      by (metis length_map)
    then have "rss ! k = [] \<longleftrightarrow> response_rows response = []" by auto
    with cl show ?thesis by auto
  qed
  have iff: "final_data = [] \<longleftrightarrow>
            (\<forall>k < length ?pairs. \<exists>response.
               client (take k ?reqs) (?reqs ! k) = Inr response \<and> response_rows response = [])"
  proof -
    have "final_data = [] \<longleftrightarrow> (\<forall>k < length rss. rss ! k = [])"
      unfolding fd by (rule concat_eq_Nil_nth)
    also have "\<dots> \<longleftrightarrow> (\<forall>k < length ?pairs. rss ! k = [])"
      unfolding len ..
    also have "\<dots> \<longleftrightarrow> (\<forall>k < length ?pairs. \<exists>response.
               client (take k ?reqs) (?reqs ! k) = Inr response \<and> response_rows response = [])"
      using each by blast
    finally show ?thesis .
  qed
  note m = main_passed [where make_client = make_client and cred = cred, OF assms(1-5), of start_date end_date]
  have w: "final_data = [] \<longrightarrow>
            main make_client fetch_btn cred_file start_date end_date selected_sites regex_input =
              \<lparr>events = [StWarning (0x26A0 # 0xFE0F # text_of '' No data returned'')],
               sent_requests = ?reqs, raised = None\<rparr>"
    using m assms(6) sent by simp
  have nw: "final_data \<noteq> [] \<longrightarrow>
            (\<forall>w. StWarning w \<notin> set (events
               (main make_client fetch_btn cred_file start_date end_date selected_sites regex_input)))"
    using m assms(6) by simp
  from pne iff w nw show ?thesis by blast
qed

theorem empty_result_witness:
  "strip ''.*'' \<noteq> []
   \<and> property_loop (\<lambda>sent request. Inr (RunReportResponse [])) [] [''424738282''] (regex_list_of ''.*'')
        \<lparr>year = 2024, month = 8, day = 1\<rparr> \<lparr>year = 2024, month = 8, day = 31\<rparr> []
       = (Inr [], requests_for [(''424738282'', ''.*'')]
                    \<lparr>year = 2024, month = 8, day = 1\<rparr> \<lparr>year = 2024, month = 8, day = 31\<rparr>)
   \<and> main (\<lambda>cred :: unit. Inr (\<lambda>sent request. Inr (RunReportResponse [])))
        True (Some ()) \<lparr>year = 2024, month = 8, day = 1\<rparr> \<lparr>year = 2024, month = 8, day = 31\<rparr>
        [''424738282''] ''.*''
       = \<lparr>events = [StWarning (0x26A0 # 0xFE0F # text_of '' No data returned'')],
          sent_requests = requests_for [(''424738282'', ''.*'')]
                    \<lparr>year = 2024, month = 8, day = 1\<rparr> \<lparr>year = 2024, month = 8, day = 31\<rparr>,
          raised = None\<rparr>"
proof -
  let ?client = "\<lambda>(sent :: run_report_request list) (request :: run_report_request).
     (Inr (RunReportResponse []) :: py_error + run_report_response)"
  let ?sd = "\<lparr>year = 2024, month = 8, day = 1\<rparr>"
  let ?ed = "\<lparr>year = 2024, month = 8, day = 31\<rparr>"
  have run: "property_loop ?client [] [''424738282''] (regex_list_of ''.*'') ?sd ?ed []
       = (Inr [], requests_for [(''424738282'', ''.*'')] ?sd ?ed)"
    by (simp add: regex_list_example directory_examples fetch_ga4_data_def requests_for_def)
  have "True" and "Some () = Some ()" and "[''424738282''] \<noteq> []"
    and "(\<lambda>cred :: unit. (Inr ?client :: py_error + client)) () = Inr ?client"
    by simp_all
  from empty_result [where make_client = "\<lambda>cred :: unit. Inr ?client" and cred = "()"
      and client = ?client and fetch_btn = True and cred_file = "Some ()"
      and selected_sites = "[''424738282'']" and regex_input = "''.*''"
      and start_date = ?sd and end_date = ?ed and final_data = "[]"
      and sent = "requests_for [(''424738282'', ''.*'')] ?sd ?ed"]
    run regex_list_example
  show ?thesis by simp
qed

section \<open>The checks before a run\<close>

text \<open>
  C4: when the button is pressed the main block checks, in this order, that a credential
  file was uploaded, that a property is selected, and that the regex text is not blank.
  The first check that fails shows its one error, whatever the later inputs are; nothing
  else is shown, no request is sent and the client is not built (the result does not
  depend on \<open>make_client\<close>). With no file, no site and no regex the error is the one about
  the missing file. When the three checks pass no error of the checks is shown.
\<close>

theorem validation_gate:
  "main make_client True None start_date end_date any_sites any_text =
     \<lparr>events = [StError (0x274C # text_of '' Upload GA4 Service Account JSON'')],
      sent_requests = [], raised = None\<rparr>
   \<and> main make_client True (Some cred) start_date end_date [] any_text =
     \<lparr>events = [StError (0x274C # text_of '' Select at least one site'')],
      sent_requests = [], raised = None\<rparr>
   \<and> (selected_sites \<noteq> [] \<and> blank regex_input \<longrightarrow>
        main make_client True (Some cred) start_date end_date selected_sites regex_input =
          \<lparr>events = [StError (0x274C # text_of '' Enter at least one regex'')],
           sent_requests = [], raised = None\<rparr>)
   \<and> (selected_sites \<noteq> [] \<and> \<not> blank regex_input \<longrightarrow>
        (\<forall>m. StError m \<notin> set (events
           (main make_client True (Some cred) start_date end_date selected_sites regex_input))))"
proof (intro conjI impI)
  show "main make_client True None start_date end_date any_sites any_text =
     \<lparr>events = [StError (0x274C # text_of '' Upload GA4 Service Account JSON'')],
      sent_requests = [], raised = None\<rparr>"
    by (simp add: main_def)
  show "main make_client True (Some cred) start_date end_date [] any_text =
     \<lparr>events = [StError (0x274C # text_of '' Select at least one site'')],
      sent_requests = [], raised = None\<rparr>"
    by (simp add: main_def)
next
  assume "selected_sites \<noteq> [] \<and> blank regex_input"
  then have "selected_sites \<noteq> []" and "strip regex_input = []"
    by (simp_all add: blank_def strip_Nil_iff)
  then show "main make_client True (Some cred) start_date end_date selected_sites regex_input =
          \<lparr>events = [StError (0x274C # text_of '' Enter at least one regex'')],
           sent_requests = [], raised = None\<rparr>"
    by (simp add: main_def)
next
  assume "selected_sites \<noteq> [] \<and> \<not> blank regex_input"
  then have "selected_sites \<noteq> []" and "strip regex_input \<noteq> []"
    by (simp_all add: blank_def strip_Nil_iff)
  then show "\<forall>m. StError m \<notin> set (events
           (main make_client True (Some cred) start_date end_date selected_sites regex_input))"
    by (simp add: main_def Let_def split: sum.splits prod.splits)
qed

theorem validation_gate_witness:
  "main (\<lambda>cred :: unit. Inr (\<lambda>sent request. Inr (RunReportResponse [])))
      True None \<lparr>year = 2024, month = 8, day = 1\<rparr> \<lparr>year = 2024, month = 8, day = 31\<rparr> [] [] =
     \<lparr>events = [StError (0x274C # text_of '' Upload GA4 Service Account JSON'')],
      sent_requests = [], raised = None\<rparr>
   \<and> blank '' ''
   \<and> main (\<lambda>cred :: unit. Inr (\<lambda>sent request. Inr (RunReportResponse [])))
      True (Some ()) \<lparr>year = 2024, month = 8, day = 1\<rparr> \<lparr>year = 2024, month = 8, day = 31\<rparr>
      [''424738282''] '' '' =
     \<lparr>events = [StError (0x274C # text_of '' Enter at least one regex'')],
      sent_requests = [], raised = None\<rparr>
   \<and> \<not> blank ''.*''
   \<and> (\<forall>m. StError m \<notin> set (events
         (main (\<lambda>cred :: unit. Inr (\<lambda>sent request. Inr (RunReportResponse [])))
            True (Some ()) \<lparr>year = 2024, month = 8, day = 1\<rparr> \<lparr>year = 2024, month = 8, day = 31\<rparr>
            [''424738282''] ''.*'')))"
proof -
  let ?mk = "\<lambda>cred :: unit. (Inr (\<lambda>sent request. Inr (RunReportResponse [])) :: py_error + client)"
  let ?sd = "\<lparr>year = 2024, month = 8, day = 1\<rparr>"
  let ?ed = "\<lparr>year = 2024, month = 8, day = 31\<rparr>"
  have b: "blank '' ''" and nb: "\<not> blank ''.*''"
    by (simp_all add: blank_def isspace_def)
  from validation_gate [where make_client = ?mk and start_date = ?sd and end_date = ?ed
      and any_sites = "[]" and any_text = "[]" and cred = "()"
      and selected_sites = "[''424738282'']" and regex_input = "'' ''"]
    validation_gate [where make_client = ?mk and start_date = ?sd and end_date = ?ed
      and any_sites = "[]" and any_text = "[]" and cred = "()"
      and selected_sites = "[''424738282'']" and regex_input = "''.*''"]
    b nb
  show ?thesis by simp
qed

section \<open>Determinism\<close>

text \<open>
  C9: the outcome of the main block (the elements shown, among them the bytes of the CSV
  file behind the download button, the requests sent and the exception, if any) is a
  function of the inputs and of the answers of the service to the requests of the run.
  Two runs with the same button state, credentials, dates, selected properties and regex
  text, against clients that answer every request of the matrix alike, have the same
  outcome, so the same bytes of CSV.
\<close>

theorem run_deterministic:
  assumes "make_client1 cred = Inr client1" and "make_client2 cred = Inr client2"
    and "\<forall>sent. \<forall>request \<in> set (requests_for
             (List.product selected_sites (regex_list_of regex_input)) start_date end_date).
           client1 sent request = client2 sent request"
  shows "main make_client1 fetch_btn (Some cred) start_date end_date selected_sites regex_input
       = main make_client2 fetch_btn (Some cred) start_date end_date selected_sites regex_input"
proof -
  have "\<forall>sent. \<forall>property_id \<in> set selected_sites. \<forall>regex \<in> set (regex_list_of regex_input).
             client1 sent (build_request property_id regex start_date end_date)
           = client2 sent (build_request property_id regex start_date end_date)"
    using assms(3) by (force simp: requests_for_def)
  then have "property_loop client1 [] selected_sites (regex_list_of regex_input) start_date end_date []
           = property_loop client2 [] selected_sites (regex_list_of regex_input) start_date end_date []"
    by (rule property_loop_cong)
  with assms(1,2) show ?thesis
    by (simp add: main_def)
qed


theorem run_deterministic_witness:
  "main (\<lambda>cred :: unit. Inr (\<lambda>sent request. Inr (RunReportResponse
         [\<lparr>dimension_values = [''2024'', ''8''], metric_values = [''150'', ''300'']\<rparr>])))
        True (Some ()) \<lparr>year = 2024, month = 8, day = 1\<rparr> \<lparr>year = 2024, month = 8, day = 31\<rparr>
        [''424738282''] ''.*''
     = main (\<lambda>cred :: unit. Inr (\<lambda>sent request.
         if property request = ''properties/424738282''
         then Inr (RunReportResponse
           [\<lparr>dimension_values = [''2024'', ''8''], metric_values = [''150'', ''300'']\<rparr>])
         else Inl (ApiError ''unknown property'')))
        True (Some ()) \<lparr>year = 2024, month = 8, day = 1\<rparr> \<lparr>year = 2024, month = 8, day = 31\<rparr>
        [''424738282''] ''.*''"
proof -
  let ?resp = "RunReportResponse
         [\<lparr>dimension_values = [''2024'', ''8''], metric_values = [''150'', ''300'']\<rparr>]"
  let ?c1 = "\<lambda>(sent :: run_report_request list) (request :: run_report_request).
     (Inr ?resp :: py_error + run_report_response)"
  let ?c2 = "\<lambda>(sent :: run_report_request list) (request :: run_report_request).
     if property request = ''properties/424738282''
     then (Inr ?resp :: py_error + run_report_response) else Inl (ApiError ''unknown property'')"
  let ?sd = "\<lparr>year = 2024, month = 8, day = 1\<rparr>"
  let ?ed = "\<lparr>year = 2024, month = 8, day = 31\<rparr>"
  have same: "\<forall>sent. \<forall>request \<in> set (requests_for (List.product [''424738282''] (regex_list_of ''.*''))
        ?sd ?ed). ?c1 sent request = ?c2 sent request"
    by (simp add: regex_list_example requests_for_def build_request_def)
  have "main (\<lambda>cred :: unit. Inr ?c1) True (Some ()) ?sd ?ed [''424738282''] ''.*''
      = main (\<lambda>cred :: unit. Inr ?c2) True (Some ()) ?sd ?ed [''424738282''] ''.*''"
    by (rule run_deterministic [where ?client1.0 = ?c1 and ?client2.0 = ?c2]) (simp, simp, rule same)
  then show ?thesis .
qed

section \<open>The exported file\<close>




end
